theory Spec2Isabelle
  imports Main
begin

section \<open>Values, messages and response objects\<close>

text \<open>
  A request is a JavaScript object literal: string keys in insertion order, each bound to
  a string, a number or \<open>undefined\<close> (an optional parameter that was not passed).
\<close>

datatype jsvalue = Undefined | Str string | Num int

type_synonym Message = "(string \<times> jsvalue) list"

text \<open>
  The values a decoded response may carry under keys the client never looks at.
\<close>

datatype any = AInt int | AStr string | AList "any list" | ADict "(string \<times> any) list"

text \<open>
  Interface \<open>Response\<close>: every key is optional. The client reads \<open>status\<close>,
  \<open>'new-session'\<close> and \<open>sessions\<close>; the remaining keys of the interface
  (\<open>session\<close>, \<open>file\<close>, \<open>line\<close>, \<open>doc\<close>, \<open>completions\<close>, ...) are only handed on
  to the caller and are kept as they were decoded.
\<close>

record Response =
  status :: "string list option"
  new_session :: "string option"
  sessions :: "string list option"
  other_keys :: "(string \<times> any) list"

record CljConnectionInformation =
  host :: string
  port :: nat

text \<open>The error object of a socket \<open>'error'\<close> event; \<open>code\<close> may be missing.\<close>

datatype NodeError = NodeError (code: "string option")

text \<open>What a promise of this module can be rejected with.\<close>

datatype rejection =
    Reason string
  | SocketError NodeError
  | TypeError
  | RangeError
  | RejectedFalse

datatype 'a promise = Pending | Resolved 'a | Rejected rejection

text \<open>
  Module \<open>bencodeUtil\<close> is imported, its two functions are parameters of the model.
\<close>

record BencodeUtil =
  encode :: "Message \<Rightarrow> string"
  decodeObjects :: "string \<Rightarrow> Response list \<times> string"

section \<open>Sockets and the shared state\<close>

record Socket =
  remote_port :: nat
  remote_host :: string
  written :: "string list"
  ended :: bool
  listeners :: bool

text \<open>
  One call of \<open>send\<close>: the caller's message object as the call left it, the socket
  (none when the call never opened one), the undecoded bytes, the response objects
  collected so far and the state of the returned promise. The promise is resolved with the
  array \<open>respObjects\<close> itself, not with a copy: what the caller holds afterwards is
  \<open>respObjects\<close>.
\<close>

record Call =
  msg :: Message
  client :: "Socket option"
  nreplResp :: string
  respObjects :: "Response list"
  result :: "Response list promise"

text \<open>
  The state outside a single call: the current connection held by \<open>cljConnection\<close>,
  the error messages shown through \<open>vscode.window.showErrorMessage\<close>, the
  \<open>net.createConnection\<close> calls made so far, and the finished \<open>send\<close> calls in
  the order they were made.
\<close>

record World =
  currentConnection :: "CljConnectionInformation option"
  errorMessages :: "string list"
  opened :: "(nat \<times> string) list"
  calls :: "Call list"

text \<open>
  Modelled from the spec: \<open>cljConnection.getConnection\<close> is the connection provider's
  "get current connection descriptor (host, port) or none".
\<close>

definition getConnection :: "World \<Rightarrow> CljConnectionInformation option" where
  "getConnection w = currentConnection w"

text \<open>
  Modelled from the spec: \<open>cljConnection.disconnect\<close> is the connection provider's
  "invalidate/disconnect current connection".
\<close>

definition disconnect :: "World \<Rightarrow> World" where
  "disconnect w = w\<lparr>currentConnection := None\<rparr>"

definition showErrorMessage :: "string \<Rightarrow> World \<Rightarrow> World" where
  "showErrorMessage m w = w\<lparr>errorMessages := errorMessages w @ [m]\<rparr>"

text \<open>
  \<open>net.createConnection\<close> throws a \<open>RangeError\<close> for a port that is not below
  65536 (here \<open>None\<close>): no socket is made.
\<close>

definition createConnection :: "nat \<Rightarrow> string \<Rightarrow> World \<Rightarrow> Socket option \<times> World" where
  "createConnection p h w =
     (if p < 65536
      then (Some \<lparr>remote_port = p, remote_host = h, written = [], ended = False,
                   listeners = False\<rparr>,
            w\<lparr>opened := opened w @ [(p, h)]\<rparr>)
      else (None, w))"

definition socket_write :: "string \<Rightarrow> Socket \<Rightarrow> Socket" where
  "socket_write bytes s = s\<lparr>written := written s @ [bytes]\<rparr>"

definition socket_on :: "Socket \<Rightarrow> Socket" where
  "socket_on s = s\<lparr>listeners := True\<rparr>"

definition socket_end :: "Socket \<Rightarrow> Socket" where
  "socket_end s = s\<lparr>ended := True\<rparr>"

definition removeAllListeners :: "Socket \<Rightarrow> Socket" where
  "removeAllListeners s = s\<lparr>listeners := False\<rparr>"

section \<open>send\<close>

text \<open>\<open>resolve\<close> and \<open>reject\<close> settle a promise once; later calls change nothing.\<close>

definition resolve :: "Response list \<Rightarrow> Call \<Rightarrow> Call" where
  "resolve v c = (case result c of Pending \<Rightarrow> c\<lparr>result := Resolved v\<rparr> | _ \<Rightarrow> c)"

definition reject :: "rejection \<Rightarrow> Call \<Rightarrow> Call" where
  "reject e c = (case result c of Pending \<Rightarrow> c\<lparr>result := Rejected e\<rparr> | _ \<Rightarrow> c)"

text \<open>
  \<open>isLastNreplObject\<close>: the last element exists, has a status, and the status list
  holds \<open>"done"\<close>.
\<close>

definition isLastNreplObject :: "Response list \<Rightarrow> bool" where
  "isLastNreplObject nreplObjects =
     (case rev nreplObjects of
        [] \<Rightarrow> False
      | lastObj # _ \<Rightarrow>
          (case status lastObj of None \<Rightarrow> False | Some st \<Rightarrow> ''done'' \<in> set st))"

text \<open>
  \<open>Object.keys(msg).forEach(key => msg[key] === undefined && delete msg[key])\<close>:
  the keys are listed once, then each key whose value reads as \<open>undefined\<close> is deleted.
\<close>

definition delete_key :: "string \<Rightarrow> Message \<Rightarrow> Message" where
  "delete_key key m = filter (\<lambda>(k, v). k \<noteq> key) m"

definition read_key :: "Message \<Rightarrow> string \<Rightarrow> jsvalue" where
  "read_key m key = (case map_of m key of None \<Rightarrow> Undefined | Some v \<Rightarrow> v)"

definition delete_undefined :: "Message \<Rightarrow> Message" where
  "delete_undefined m =
     foldl (\<lambda>m' key. if read_key m' key = Undefined then delete_key key m' else m') m (map fst m)"

text \<open>
  The body of the promise executor up to the registration of the two listeners. An
  exception thrown in the executor rejects the promise and ends the executor there, so
  when \<open>net.createConnection\<close> throws, the message is neither stripped nor written.
  What \<open>send\<close> prints on the console is left out, here and in the data listener.
\<close>

definition send_start ::
  "BencodeUtil \<Rightarrow> Message \<Rightarrow> CljConnectionInformation option \<Rightarrow> World \<Rightarrow> Call \<times> World" where
  "send_start bencodeUtil m connection w =
     (case (case connection of Some c \<Rightarrow> Some c | None \<Rightarrow> getConnection w) of
        None \<Rightarrow>
          (\<lparr>msg = m, client = None, nreplResp = [], respObjects = [],
            result = Rejected (Reason ''No connection found.'')\<rparr>, w)
      | Some c \<Rightarrow>
          (case createConnection (port c) (host c) w of
             (None, w') \<Rightarrow>
               (\<lparr>msg = m, client = None, nreplResp = [], respObjects = [],
                 result = Rejected RangeError\<rparr>, w')
           | (Some sock, w') \<Rightarrow>
               (let m' = delete_undefined m;
                    sock' = socket_on (socket_write (encode bencodeUtil m') sock)
                in (\<lparr>msg = m', client = Some sock', nreplResp = [], respObjects = [],
                     result = Pending\<rparr>, w'))))"

text \<open>The \<open>'error'\<close> listener.\<close>

definition on_error :: "NodeError \<Rightarrow> Call \<times> World \<Rightarrow> Call \<times> World" where
  "on_error error cw =
     (let (c, w) = cw;
          c1 = c\<lparr>client := map_option (removeAllListeners \<circ> socket_end) (client c)\<rparr>;
          w1 = (if code error = Some ''ECONNREFUSED''
                then disconnect (showErrorMessage ''Connection refused.'' w)
                else w)
      in (reject (SocketError error) c1, w1))"

text \<open>
  The \<open>'data'\<close> listener. The reducer starts from an empty list and stops pushing once
  the list it has built ends with a completion object.
\<close>

definition push_valid :: "Response list \<Rightarrow> Response \<Rightarrow> Response list" where
  "push_valid objs obj = (if \<not> isLastNreplObject objs then objs @ [obj] else objs)"

definition on_data :: "BencodeUtil \<Rightarrow> string \<Rightarrow> Call \<times> World \<Rightarrow> Call \<times> World" where
  "on_data bencodeUtil data cw =
     (let (c, w) = cw;
          (decodedObjects, rest) = decodeObjects bencodeUtil (nreplResp c @ data);
          validDecodedObjects = foldl push_valid [] decodedObjects;
          c1 = c\<lparr>nreplResp := rest, respObjects := respObjects c @ validDecodedObjects\<rparr>
      in if isLastNreplObject (respObjects c1)
         then (resolve (respObjects c1)
                 (c1\<lparr>client := map_option (removeAllListeners \<circ> socket_end) (client c1)\<rparr>), w)
         else (c1, w))"

text \<open>
  What a socket delivers: chunks of bytes and errors. A listener runs only while it is
  attached.
\<close>

datatype event = Data string | Error NodeError

definition listening :: "Call \<Rightarrow> bool" where
  "listening c = (case client c of None \<Rightarrow> False | Some s \<Rightarrow> listeners s)"

definition deliver :: "BencodeUtil \<Rightarrow> event \<Rightarrow> Call \<times> World \<Rightarrow> Call \<times> World" where
  "deliver bencodeUtil ev cw =
     (if listening (fst cw)
      then (case ev of Data d \<Rightarrow> on_data bencodeUtil d cw | Error e \<Rightarrow> on_error e cw)
      else cw)"

text \<open>
  A whole call: the synchronous part, then the events of its socket in order.
\<close>

definition send_call ::
  "BencodeUtil \<Rightarrow> Message \<Rightarrow> CljConnectionInformation option \<Rightarrow> event list \<Rightarrow> World
     \<Rightarrow> Call \<times> World" where
  "send_call bencodeUtil m connection events w =
     fold (deliver bencodeUtil) events (send_start bencodeUtil m connection w)"

text \<open>
  \<open>send\<close> as its callers see it: the promise and the shared state, with the call
  entered in the log.
\<close>

definition send ::
  "BencodeUtil \<Rightarrow> Message \<Rightarrow> CljConnectionInformation option \<Rightarrow> event list \<Rightarrow> World
     \<Rightarrow> Response list promise \<times> World" where
  "send bencodeUtil m connection events w =
     (let (c, w') = send_call bencodeUtil m connection events w
      in (result c, w'\<lparr>calls := calls w' @ [c]\<rparr>))"

section \<open>The operations\<close>

text \<open>\<open>p.then(f)\<close> for a callback that returns a promise.\<close>

fun then_promise :: "'a promise \<Rightarrow> ('a \<Rightarrow> 'b promise) \<Rightarrow> 'b promise" where
  "then_promise Pending f = Pending"
| "then_promise (Resolved v) f = f v"
| "then_promise (Rejected e) f = Rejected e"

text \<open>
  An optional string parameter as a value (\<open>undefined\<close> when it was not passed), and
  its truthiness: \<open>undefined\<close> and the empty string are falsy.
\<close>

definition optional :: "string option \<Rightarrow> jsvalue" where
  "optional s = (case s of None \<Rightarrow> Undefined | Some v \<Rightarrow> Str v)"

definition truthy :: "string option \<Rightarrow> bool" where
  "truthy s = (case s of None \<Rightarrow> False | Some v \<Rightarrow> v \<noteq> [])"

text \<open>\<open>respObjs[0]\<close>: \<open>undefined\<close> (here \<open>None\<close>) on the empty array.\<close>

definition first_object :: "Response list \<Rightarrow> Response option" where
  "first_object respObjs = (case respObjs of [] \<Rightarrow> None | r # _ \<Rightarrow> Some r)"

definition complete ::
  "BencodeUtil \<Rightarrow> string \<Rightarrow> string \<Rightarrow> event list \<Rightarrow> World
     \<Rightarrow> Response option promise \<times> World" where
  "complete bencodeUtil symbol ns events w =
     (let (p, w') = send bencodeUtil
            [(''op'', Str ''complete''), (''symbol'', Str symbol), (''ns'', Str ns)] None events w
      in (then_promise p (\<lambda>respObjs. Resolved (first_object respObjs)), w'))"

definition info ::
  "BencodeUtil \<Rightarrow> string \<Rightarrow> string \<Rightarrow> string option \<Rightarrow> event list \<Rightarrow> World
     \<Rightarrow> Response option promise \<times> World" where
  "info bencodeUtil symbol ns session events w =
     (let (p, w') = send bencodeUtil
            [(''op'', Str ''info''), (''symbol'', Str symbol), (''ns'', Str ns),
             (''session'', optional session)] None events w
      in (then_promise p (\<lambda>respObjs. Resolved (first_object respObjs)), w'))"

text \<open>
  \<open>clone\<close>: the \<open>'new-session'\<close> values are filtered by truthiness and the first
  one left, if any and if truthy, is the result.
\<close>

definition clone_then :: "Response list \<Rightarrow> string promise" where
  "clone_then respObjs =
     (case filter truthy (map new_session respObjs) of
        [] \<Rightarrow> Rejected (Reason ''No session found'')
      | session # _ \<Rightarrow>
          (case session of
             None \<Rightarrow> Rejected (Reason ''No session found'')
           | Some v \<Rightarrow> if v \<noteq> [] then Resolved v else Rejected (Reason ''No session found'')))"

definition clone ::
  "BencodeUtil \<Rightarrow> string option \<Rightarrow> event list \<Rightarrow> World \<Rightarrow> string promise \<times> World" where
  "clone bencodeUtil session events w =
     (let (p, w') = send bencodeUtil
            [(''op'', Str ''clone''), (''session'', optional session)] None events w
      in (then_promise p clone_then, w'))"

text \<open>
  \<open>evaluate\<close> and \<open>evaluateFile\<close>: the second \<open>send\<close> is made in the callback of
  \<open>clone\<close>, so it has its own socket and its own events.
\<close>

definition evaluate ::
  "BencodeUtil \<Rightarrow> string \<Rightarrow> string option \<Rightarrow> event list \<Rightarrow> event list \<Rightarrow> World
     \<Rightarrow> Response list promise \<times> World" where
  "evaluate bencodeUtil code' session clone_events events w =
     (case clone bencodeUtil session clone_events w of
        (Pending, w') \<Rightarrow> (Pending, w')
      | (Rejected e, w') \<Rightarrow> (Rejected e, w')
      | (Resolved session_id, w') \<Rightarrow>
          send bencodeUtil
            [(''op'', Str ''eval''), (''code'', Str code'), (''session'', Str session_id)]
            None events w')"

definition evaluateFile ::
  "BencodeUtil \<Rightarrow> string \<Rightarrow> string \<Rightarrow> string option \<Rightarrow> event list \<Rightarrow> event list \<Rightarrow> World
     \<Rightarrow> Response list promise \<times> World" where
  "evaluateFile bencodeUtil code' filepath session clone_events events w =
     (case clone bencodeUtil session clone_events w of
        (Pending, w') \<Rightarrow> (Pending, w')
      | (Rejected e, w') \<Rightarrow> (Rejected e, w')
      | (Resolved session_id, w') \<Rightarrow>
          send bencodeUtil
            [(''op'', Str ''load-file''), (''file'', Str code'), (''file-path'', Str filepath),
             (''session'', Str session_id)]
            None events w')"

definition stacktrace ::
  "BencodeUtil \<Rightarrow> string \<Rightarrow> event list \<Rightarrow> World \<Rightarrow> Response list promise \<times> World" where
  "stacktrace bencodeUtil session events w =
     send bencodeUtil [(''op'', Str ''stacktrace''), (''session'', Str session)] None events w"

definition runTests ::
  "BencodeUtil \<Rightarrow> string option \<Rightarrow> event list \<Rightarrow> World \<Rightarrow> Response list promise \<times> World" where
  "runTests bencodeUtil namespace events w =
     send bencodeUtil
       [(''op'', Str (if truthy namespace then ''test'' else ''test-all'')),
        (''ns'', optional namespace),
        (''load?'', Num 1)]
       None events w"

text \<open>
  \<open>test\<close>: the only caller that passes a connection. \<open>in\<close> on \<open>undefined\<close>
  throws, which rejects the promise.
\<close>

definition test ::
  "BencodeUtil \<Rightarrow> CljConnectionInformation \<Rightarrow> event list \<Rightarrow> World
     \<Rightarrow> unit list promise \<times> World" where
  "test bencodeUtil connectionInfo events w =
     (let (p, w') = send bencodeUtil [(''op'', Str ''clone'')] (Some connectionInfo) events w
      in (then_promise p (\<lambda>respObjs.
            case first_object respObjs of
              None \<Rightarrow> Rejected TypeError
            | Some response \<Rightarrow>
                if new_session response = None then Rejected RejectedFalse else Resolved []),
          w'))"

definition close ::
  "BencodeUtil \<Rightarrow> string option \<Rightarrow> event list \<Rightarrow> World \<Rightarrow> Response list promise \<times> World" where
  "close bencodeUtil session events w =
     send bencodeUtil [(''op'', Str ''close''), (''session'', optional session)] None events w"

text \<open>
  \<open>listSessions\<close>: reading \<open>status\<close> of \<open>respObjs[0]\<close> throws on the empty array;
  an array is truthy even when it is empty, and \<open>status[0]\<close> of an empty array is
  \<open>undefined\<close>.
\<close>

definition listSessions_then :: "Response list \<Rightarrow> string list promise" where
  "listSessions_then respObjs =
     (case first_object respObjs of
        None \<Rightarrow> Rejected TypeError
      | Some response \<Rightarrow>
          (case (status response, sessions response) of
             (Some (s0 # _), Some ss) \<Rightarrow>
               if s0 = ''done'' then Resolved ss else Rejected (Reason ''No sessions found'')
           | _ \<Rightarrow> Rejected (Reason ''No sessions found'')))"

definition listSessions ::
  "BencodeUtil \<Rightarrow> event list \<Rightarrow> World \<Rightarrow> string list promise \<times> World" where
  "listSessions bencodeUtil events w =
     (let (p, w') = send bencodeUtil [(''op'', Str ''ls-sessions'')] None events w
      in (then_promise p listSessions_then, w'))"

section \<open>Notions used in the statements\<close>

text \<open>A completion object: its status list contains \<open>"done"\<close>.\<close>

definition status_done :: "Response \<Rightarrow> bool" where
  "status_done r = (case status r of None \<Rightarrow> False | Some st \<Rightarrow> ''done'' \<in> set st)"

text \<open>
  The invariant of a call: while the promise is pending no collected object is a
  completion object; once it is resolved, the value is the collected list, whose last
  object is the only completion object, and the listeners are gone; a socket without
  listeners has been ended; and a call without a socket was rejected, for want of a
  connection or for a port out of range.
\<close>

definition call_inv :: "Call \<Rightarrow> bool" where
  "call_inv c =
     ((case result c of
         Pending \<Rightarrow> (\<forall>r\<in>set (respObjects c). \<not> status_done r)
       | Resolved rs \<Rightarrow>
           rs = respObjects c \<and> rs \<noteq> [] \<and> status_done (last rs) \<and>
           (\<forall>r\<in>set (butlast rs). \<not> status_done r) \<and> \<not> listening c
       | Rejected e \<Rightarrow> \<not> listening c) \<and>
      (case client c of
         None \<Rightarrow>
           result c = Rejected (Reason ''No connection found.'') \<or> result c = Rejected RangeError
       | Some s \<Rightarrow> \<not> listeners s \<longrightarrow> ended s))"

text \<open>The message without the keys bound to \<open>undefined\<close>, in the same order.\<close>

definition defined_keys :: "Message \<Rightarrow> Message" where
  "defined_keys m = filter (\<lambda>(k, v). v \<noteq> Undefined) m"

text \<open>Where the socket of a call points and what was written to it.\<close>

definition wire :: "Call \<Rightarrow> (nat \<times> string \<times> string list) option" where
  "wire c = map_option (\<lambda>s. (remote_port s, remote_host s, written s)) (client c)"

text \<open>
  The \<open>'new-session'\<close> values of a list of response objects, in order, the empty
  string left out.
\<close>

definition new_session_ids :: "Response list \<Rightarrow> string list" where
  "new_session_ids respObjs = filter (\<lambda>v. v \<noteq> []) (List.map_filter new_session respObjs)"

text \<open>The clone request with its \<open>session\<close> key present exactly when a session is given.\<close>

definition clone_request :: "string option \<Rightarrow> Message" where
  "clone_request session =
     (''op'', Str ''clone'') # (case session of None \<Rightarrow> [] | Some s \<Rightarrow> [(''session'', Str s)])"

text \<open>
  The request of \<open>runTests\<close> as it is encoded: \<open>test\<close> with the namespace when a
  non-empty namespace is given, \<open>test-all\<close> otherwise, and \<open>load?\<close> in both.
\<close>

definition tests_request :: "string option \<Rightarrow> Message" where
  "tests_request namespace =
     (''op'', Str (case namespace of
                     None \<Rightarrow> ''test-all''
                   | Some n \<Rightarrow> if n = [] then ''test-all'' else ''test'')) #
     (case namespace of None \<Rightarrow> [] | Some n \<Rightarrow> [(''ns'', Str n)]) @
     [(''load?'', Num 1)]"

section \<open>A codec to run the model on\<close>

text \<open>
  The statements below hold for every codec. To run the model on concrete inputs, this
  section fixes one: a request is written as a dictionary of length-prefixed strings and
  integers; a response object is a line ended by \<open>;\<close> with the three fields
  \<open>status|new-session|sessions\<close>, a field being empty when the key is absent and
  \<open>=\<close> followed by the value (lists separated by commas) otherwise. Bytes after the
  last \<open>;\<close> are the remainder.
\<close>

fun split_on :: "char \<Rightarrow> string \<Rightarrow> string list" where
  "split_on c [] = [[]]"
| "split_on c (x # xs) =
     (case split_on c xs of
        [] \<Rightarrow> [[x]]
      | l # ls \<Rightarrow> if x = c then [] # l # ls else (x # l) # ls)"

definition field_value :: "string \<Rightarrow> string option" where
  "field_value f = (case f of [] \<Rightarrow> None | _ # v \<Rightarrow> Some v)"

definition line_object :: "string \<Rightarrow> Response" where
  "line_object l =
     (case split_on (CHR ''|'') l of
        [a, b, c] \<Rightarrow>
          \<lparr>status = map_option (split_on (CHR '','')) (field_value a),
           new_session = field_value b,
           sessions = map_option (split_on (CHR '','')) (field_value c),
           other_keys = []\<rparr>
      | _ \<Rightarrow> \<lparr>status = None, new_session = None, sessions = None, other_keys = []\<rparr>)"

definition line_decodeObjects :: "string \<Rightarrow> Response list \<times> string" where
  "line_decodeObjects buffer =
     (let ls = split_on (CHR '';'') buffer in (map line_object (butlast ls), last ls))"

fun digits :: "nat \<Rightarrow> string" where
  "digits n =
     (if n < 10 then [''0123456789'' ! n] else digits (n div 10) @ [''0123456789'' ! (n mod 10)])"

definition bstring :: "string \<Rightarrow> string" where
  "bstring s = digits (length s) @ '':'' @ s"

fun bvalue :: "jsvalue \<Rightarrow> string" where
  "bvalue (Str s) = bstring s"
| "bvalue (Num n) = ''i'' @ (if n < 0 then ''-'' else '''') @ digits (nat \<bar>n\<bar>) @ ''e''"
| "bvalue Undefined = ''''"

definition line_encode :: "Message \<Rightarrow> string" where
  "line_encode m = ''d'' @ concat (map (\<lambda>(k, v). bstring k @ bvalue v) m) @ ''e''"

definition line_codec :: BencodeUtil where
  "line_codec = \<lparr>encode = line_encode, decodeObjects = line_decodeObjects\<rparr>"

text \<open>
  Two states to start from: one with a current connection, one in which
  \<open>cljConnection\<close> holds none.
\<close>

definition local_world :: World where
  "local_world =
     \<lparr>currentConnection = Some \<lparr>host = ''localhost'', port = 7888\<rparr>,
      errorMessages = [], opened = [], calls = []\<rparr>"

definition offline_world :: World where
  "offline_world = \<lparr>currentConnection = None, errorMessages = [], opened = [], calls = []\<rparr>"

section \<open>Running the model\<close>

text \<open>The definitions to unfold when a call is run on a concrete input.\<close>

lemmas run_defs =
  send_def send_call_def send_start_def deliver_def on_data_def on_error_def
  listening_def resolve_def reject_def isLastNreplObject_def push_valid_def
  delete_undefined_def delete_key_def read_key_def getConnection_def disconnect_def
  showErrorMessage_def createConnection_def socket_write_def socket_on_def socket_end_def
  removeAllListeners_def truthy_def optional_def first_object_def
  line_codec_def line_decodeObjects_def line_object_def field_value_def line_encode_def
  bstring_def local_world_def Let_def

section \<open>The reducer of the data listener\<close>

lemma isLast_iff: "isLastNreplObject xs \<longleftrightarrow> xs \<noteq> [] \<and> status_done (last xs)"
  by (cases xs rule: rev_cases) (simp_all add: isLastNreplObject_def status_done_def)

lemma push_valid_last: "isLastNreplObject objs \<Longrightarrow> push_valid objs obj = objs"
  by (simp add: push_valid_def)

lemma push_valid_open: "\<not> isLastNreplObject objs \<Longrightarrow> push_valid objs obj = objs @ [obj]"
  by (simp add: push_valid_def)

lemma foldl_push_valid_stuck:
  "isLastNreplObject acc \<Longrightarrow> foldl push_valid acc ds = acc"
  by (induction ds) (simp_all add: push_valid_last)

lemma foldl_push_valid:
  "\<not> isLastNreplObject acc \<Longrightarrow>
   foldl push_valid acc ds =
     acc @ takeWhile (\<lambda>r. \<not> status_done r) ds @ take 1 (dropWhile (\<lambda>r. \<not> status_done r) ds)"
proof (induction ds arbitrary: acc)
  case Nil
  then show ?case by simp
next
  case (Cons d ds)
  show ?case
  proof (cases "status_done d")
    case True
    then have "isLastNreplObject (acc @ [d])" by (simp add: isLast_iff)
    then show ?thesis using Cons.prems True
      by (simp add: push_valid_open foldl_push_valid_stuck)
  next
    case False
    then have "\<not> isLastNreplObject (acc @ [d])" by (simp add: isLast_iff)
    from Cons.IH[OF this] show ?thesis using Cons.prems False
      by (simp add: push_valid_open)
  qed
qed

lemma valid_objects:
  "foldl push_valid [] ds =
     takeWhile (\<lambda>r. \<not> status_done r) ds @ take 1 (dropWhile (\<lambda>r. \<not> status_done r) ds)"
  using foldl_push_valid[of "[]" ds] by (simp add: isLast_iff)

lemma valid_objects_butlast:
  "\<forall>r\<in>set (butlast (foldl push_valid [] ds)). \<not> status_done r"
proof -
  let ?t = "takeWhile (\<lambda>r. \<not> status_done r) ds"
  let ?d = "dropWhile (\<lambda>r. \<not> status_done r) ds"
  have t: "\<forall>r\<in>set ?t. \<not> status_done r" by (auto dest: set_takeWhileD)
  show ?thesis
  proof (cases ?d)
    case Nil
    have "foldl push_valid [] ds = ?t" unfolding valid_objects Nil by simp
    then show ?thesis using t by (auto dest: in_set_butlastD)
  next
    case (Cons x xs)
    then show ?thesis using t by (simp add: valid_objects butlast_append)
  qed
qed

lemma valid_objects_open:
  assumes "\<not> isLastNreplObject (foldl push_valid [] ds)"
  shows "\<forall>r\<in>set (foldl push_valid [] ds). \<not> status_done r"
proof -
  let ?t = "takeWhile (\<lambda>r. \<not> status_done r) ds"
  let ?d = "dropWhile (\<lambda>r. \<not> status_done r) ds"
  have t: "\<forall>r\<in>set ?t. \<not> status_done r" by (auto dest: set_takeWhileD)
  show ?thesis
  proof (cases ?d)
    case Nil
    have "foldl push_valid [] ds = ?t" unfolding valid_objects Nil by simp
    then show ?thesis using t by simp
  next
    case (Cons x xs)
    then have "status_done x" using hd_dropWhile[of "\<lambda>r. \<not> status_done r" ds] by auto
    then have "isLastNreplObject (foldl push_valid [] ds)"
      using Cons by (simp add: valid_objects isLast_iff)
    with assms show ?thesis by simp
  qed
qed

lemma isLast_append_open:
  assumes "\<forall>r\<in>set xs. \<not> status_done r"
  shows "isLastNreplObject (xs @ v) \<longleftrightarrow> isLastNreplObject v"
  using assms by (cases v rule: rev_cases) (auto simp: isLast_iff)

section \<open>The invariant holds throughout a call\<close>

lemma send_start_inv: "call_inv (fst (send_start bu m connection w))"
  by (auto simp: send_start_def call_inv_def createConnection_def socket_on_def socket_write_def
      listening_def Let_def split: option.splits)

lemma on_error_inv:
  assumes "call_inv c" "listening c"
  shows "call_inv (fst (on_error e (c, w)))"
  using assms
  by (auto simp: on_error_def call_inv_def reject_def listening_def Let_def
      removeAllListeners_def socket_end_def split: option.splits promise.splits)

lemma on_data_inv:
  assumes "call_inv c" "listening c"
  shows "call_inv (fst (on_data bu d (c, w)))"
proof -
  obtain ds rest where dec: "decodeObjects bu (nreplResp c @ d) = (ds, rest)"
    by (cases "decodeObjects bu (nreplResp c @ d)")
  let ?v = "foldl push_valid [] ds"
  from assms obtain s where s: "client c = Some s" "listeners s"
    by (auto simp: listening_def split: option.splits)
  from assms have pend: "result c = Pending"
    by (auto simp: call_inv_def split: promise.splits)
  with assms have open_: "\<forall>r\<in>set (respObjects c). \<not> status_done r"
    by (simp add: call_inv_def)
  show ?thesis
  proof (cases "isLastNreplObject (respObjects c @ ?v)")
    case True
    then have v: "isLastNreplObject ?v" using open_ by (simp add: isLast_append_open)
    then have "?v \<noteq> []" "status_done (last ?v)" by (simp_all add: isLast_iff)
    moreover have "\<forall>r\<in>set (butlast (respObjects c @ ?v)). \<not> status_done r"
      using open_ valid_objects_butlast[of ds] \<open>?v \<noteq> []\<close> by (auto simp: butlast_append)
    ultimately show ?thesis using True dec pend s
      by (simp add: on_data_def call_inv_def resolve_def listening_def Let_def
          removeAllListeners_def socket_end_def)
  next
    case False
    then have "\<not> isLastNreplObject ?v" using open_ by (simp add: isLast_append_open)
    then have "\<forall>r\<in>set ?v. \<not> status_done r" by (rule valid_objects_open)
    then show ?thesis using False dec pend s open_
      by (auto simp: on_data_def call_inv_def Let_def)
  qed
qed

lemma deliver_inv: "call_inv (fst cw) \<Longrightarrow> call_inv (fst (deliver bu ev cw))"
  by (cases cw; cases ev) (auto simp: deliver_def on_data_inv on_error_inv)

lemma fold_deliver_inv: "call_inv (fst cw) \<Longrightarrow> call_inv (fst (fold (deliver bu) evs cw))"
  by (induction evs arbitrary: cw) (simp_all add: deliver_inv)

lemma send_call_inv: "call_inv (fst (send_call bu m connection evs w))"
  by (simp add: send_call_def fold_deliver_inv send_start_inv)

section \<open>What a resolved call holds\<close>

lemma fold_deliver_detached:
  "\<not> listening (fst cw) \<Longrightarrow> fold (deliver bu) evs cw = cw"
  by (induction evs) (simp_all add: deliver_def)

lemma send_call_append:
  "send_call bu m connection (evs @ later) w =
     fold (deliver bu) later (send_call bu m connection evs w)"
  by (simp add: send_call_def)

lemma send_result: "fst (send bu m connection evs w) = result (fst (send_call bu m connection evs w))"
  by (simp add: send_def split_def Let_def)

lemma resolved_detached:
  "call_inv c \<Longrightarrow> result c = Resolved rs \<Longrightarrow> \<not> listening c"
  by (simp add: call_inv_def)

lemma resolved_shape:
  "call_inv c \<Longrightarrow> result c = Resolved rs \<Longrightarrow>
     rs \<noteq> [] \<and> status_done (last rs) \<and> (\<forall>r\<in>set (butlast rs). \<not> status_done r)"
  by (auto simp: call_inv_def)

text \<open>
  C9: whenever the promise of a \<open>send\<close> call resolves, the list it resolves with is not
  empty and the status list of its last element contains \<open>"done"\<close>; so \<open>respObjs[0]\<close>,
  which \<open>complete\<close>, \<open>info\<close> and \<open>listSessions\<close> read, is an object.
\<close>

theorem send_resolves_with_completion:
  assumes "fst (send bu m connection evs w) = Resolved rs"
  shows "rs \<noteq> [] \<and> status_done (last rs) \<and> first_object rs \<noteq> None"
proof -
  from assms have "result (fst (send_call bu m connection evs w)) = Resolved rs"
    by (simp add: send_result)
  with send_call_inv have "rs \<noteq> [] \<and> status_done (last rs)"
    using resolved_shape by blast
  then show ?thesis by (cases rs) (simp_all add: first_object_def)
qed

theorem send_resolves_with_completion_witness:
  "fst (send line_codec [(''op'', Str ''ls-sessions'')] None
          [Data ''||;=do'', Data ''ne||=s1,s2;''] local_world)
     = Resolved [\<lparr>status = None, new_session = None, sessions = None, other_keys = []\<rparr>,
                 \<lparr>status = Some [''done''], new_session = None,
                    sessions = Some [''s1'', ''s2''], other_keys = []\<rparr>]
   \<and> status_done \<lparr>status = Some [''done''], new_session = None,
                    sessions = Some [''s1'', ''s2''], other_keys = []\<rparr>"
proof -
  have h: "fst (send line_codec [(''op'', Str ''ls-sessions'')] None
          [Data ''||;=do'', Data ''ne||=s1,s2;''] local_world)
     = Resolved [\<lparr>status = None, new_session = None, sessions = None, other_keys = []\<rparr>,
                 \<lparr>status = Some [''done''], new_session = None,
                    sessions = Some [''s1'', ''s2''], other_keys = []\<rparr>]"
    by (simp add: run_defs)
  from send_resolves_with_completion[OF h] show ?thesis using h by simp
qed

text \<open>
  C1: in the list a \<open>send\<close> call resolves with, no object stands after an object whose
  status list contains \<open>"done"\<close> (every object that has a successor is not a completion
  object). The promise is resolved with the array \<open>respObjects\<close> itself, which the
  caller then holds: it is that list, and whatever the socket delivers after the call has
  resolved changes nothing, neither that array nor anything else of the call or of the
  shared state, so the promise stays resolved with the same list.
\<close>

theorem send_drops_after_completion:
  assumes "fst (send bu m connection evs w) = Resolved rs"
  shows "(\<forall>i j. i < j \<and> j < length rs \<longrightarrow> \<not> status_done (rs ! i)) \<and>
         respObjects (fst (send_call bu m connection evs w)) = rs \<and>
         (\<forall>later. send_call bu m connection (evs @ later) w = send_call bu m connection evs w) \<and>
         (\<forall>later. fst (send bu m connection (evs @ later) w) = Resolved rs)"
proof -
  let ?c = "fst (send_call bu m connection evs w)"
  from assms have res: "result ?c = Resolved rs" by (simp add: send_result)
  have inv: "call_inv ?c" by (rule send_call_inv)
  have "\<not> status_done (rs ! i)" if "i < j" "j < length rs" for i j
  proof -
    from that have "i < length (butlast rs)" by simp
    then have "butlast rs ! i \<in> set (butlast rs)" by (rule nth_mem)
    moreover have "butlast rs ! i = rs ! i" using \<open>i < length (butlast rs)\<close> by (simp add: nth_butlast)
    ultimately show ?thesis using resolved_shape[OF inv res] by auto
  qed
  moreover have "respObjects ?c = rs" using inv res by (simp add: call_inv_def)
  moreover have same: "send_call bu m connection (evs @ later) w = send_call bu m connection evs w"
    for later
  proof -
    have "\<not> listening ?c" using inv res by (rule resolved_detached)
    then have "fold (deliver bu) later (send_call bu m connection evs w) = send_call bu m connection evs w"
      by (rule fold_deliver_detached)
    then show ?thesis by (simp add: send_call_append)
  qed
  moreover have "fst (send bu m connection (evs @ later) w) = Resolved rs" for later
    using same[of later] res by (simp add: send_result)
  ultimately show ?thesis by blast
qed

theorem send_drops_after_completion_witness:
  "fst (send line_codec [(''op'', Str ''eval''), (''code'', Str ''(+ 1 2)'')] None
          [Data ''=done||;|=garbage|;'', Data ''||;''] local_world)
     = Resolved [\<lparr>status = Some [''done''], new_session = None, sessions = None, other_keys = []\<rparr>]
   \<and> respObjects (fst (send_call line_codec [(''op'', Str ''eval''), (''code'', Str ''(+ 1 2)'')] None
          ([Data ''=done||;|=garbage|;'', Data ''||;''] @ [Data ''=done||;'']) local_world))
     = [\<lparr>status = Some [''done''], new_session = None, sessions = None, other_keys = []\<rparr>]
   \<and> fst (send line_codec [(''op'', Str ''eval''), (''code'', Str ''(+ 1 2)'')] None
          ([Data ''=done||;|=garbage|;'', Data ''||;''] @ [Data ''=done||;'']) local_world)
     = Resolved [\<lparr>status = Some [''done''], new_session = None, sessions = None, other_keys = []\<rparr>]"
proof -
  have h: "fst (send line_codec [(''op'', Str ''eval''), (''code'', Str ''(+ 1 2)'')] None
          [Data ''=done||;|=garbage|;'', Data ''||;''] local_world)
     = Resolved [\<lparr>status = Some [''done''], new_session = None, sessions = None, other_keys = []\<rparr>]"
    by (simp add: run_defs)
  from send_drops_after_completion[OF h] show ?thesis using h by metis
qed

section \<open>Deleting the undefined keys\<close>

lemma delete_key_absent: "key \<notin> fst ` set m \<Longrightarrow> delete_key key m = m"
  by (induction m) (auto simp: delete_key_def)

lemma read_key_Cons:
  "read_key ((k, v) # m) key = (if key = k then v else read_key m key)"
  by (simp add: read_key_def)

lemma foldl_delete_Cons:
  assumes "k \<notin> set ks" "v \<noteq> Undefined"
  shows "foldl (\<lambda>m' key. if read_key m' key = Undefined then delete_key key m' else m')
           ((k, v) # m) ks =
         (k, v) # foldl (\<lambda>m' key. if read_key m' key = Undefined then delete_key key m' else m') m ks"
  using assms
proof (induction ks arbitrary: m)
  case Nil
  then show ?case by simp
next
  case (Cons a ks)
  then have "a \<noteq> k" by auto
  then have "delete_key a ((k, v) # m) = (k, v) # delete_key a m" by (simp add: delete_key_def)
  with Cons \<open>a \<noteq> k\<close> show ?case by (simp add: read_key_Cons)
qed

lemma foldl_delete_gone:
  assumes "k \<notin> set ks" "k \<notin> fst ` set m"
  shows "foldl (\<lambda>m' key. if read_key m' key = Undefined then delete_key key m' else m')
           ((k, Undefined) # m) (k # ks) =
         foldl (\<lambda>m' key. if read_key m' key = Undefined then delete_key key m' else m') m ks"
  using assms by (simp add: read_key_Cons delete_key_def delete_key_absent[unfolded delete_key_def])

lemma delete_undefined_filter:
  "distinct (map fst m) \<Longrightarrow> delete_undefined m = defined_keys m"
proof (induction m)
  case Nil
  then show ?case by (simp add: delete_undefined_def defined_keys_def)
next
  case (Cons kv m)
  obtain k v where kv: "kv = (k, v)" by (cases kv)
  from Cons.prems kv have k: "k \<notin> set (map fst m)" and d: "distinct (map fst m)" by auto
  from Cons.IH[OF d] have IH:
    "foldl (\<lambda>m' key. if read_key m' key = Undefined then delete_key key m' else m') m (map fst m)
       = defined_keys m"
    by (simp add: delete_undefined_def)
  show ?case
  proof (cases "v = Undefined")
    case True
    have "delete_undefined (kv # m) =
          foldl (\<lambda>m' key. if read_key m' key = Undefined then delete_key key m' else m')
            ((k, Undefined) # m) (k # map fst m)"
      by (simp add: delete_undefined_def kv True)
    also have "\<dots> = foldl (\<lambda>m' key. if read_key m' key = Undefined then delete_key key m' else m')
            m (map fst m)"
      using k by (intro foldl_delete_gone) auto
    finally show ?thesis using IH by (simp add: defined_keys_def kv True)
  next
    case False
    have "delete_undefined (kv # m) =
          foldl (\<lambda>m' key. if read_key m' key = Undefined then delete_key key m' else m')
            ((k, v) # m) (map fst m)"
      using False by (simp add: delete_undefined_def kv read_key_Cons)
    also have "\<dots> = (k, v) # foldl (\<lambda>m' key. if read_key m' key = Undefined then delete_key key m' else m')
            m (map fst m)"
      using k False by (intro foldl_delete_Cons) auto
    finally show ?thesis using IH False by (simp add: defined_keys_def kv)
  qed
qed

section \<open>What the listeners leave alone\<close>

lemma deliver_frame:
  "msg (fst (deliver bu ev cw)) = msg (fst cw) \<and>
   wire (fst (deliver bu ev cw)) = wire (fst cw) \<and>
   opened (snd (deliver bu ev cw)) = opened (snd cw) \<and>
   calls (snd (deliver bu ev cw)) = calls (snd cw)"
  by (cases cw; cases ev; cases "client (fst cw)")
     (auto simp: deliver_def on_data_def on_error_def wire_def resolve_def reject_def Let_def
        disconnect_def showErrorMessage_def removeAllListeners_def socket_end_def
        split: prod.splits option.splits promise.splits)

lemma fold_deliver_frame:
  "msg (fst (fold (deliver bu) evs cw)) = msg (fst cw) \<and>
   wire (fst (fold (deliver bu) evs cw)) = wire (fst cw) \<and>
   opened (snd (fold (deliver bu) evs cw)) = opened (snd cw) \<and>
   calls (snd (fold (deliver bu) evs cw)) = calls (snd cw)"
  by (induction evs arbitrary: cw) (simp_all add: deliver_frame)

lemma send_start_connected:
  assumes "connection = Some cn \<or> (connection = None \<and> getConnection w = Some cn)"
      and "port cn < 65536"
  shows "send_start bu m connection w =
     (\<lparr>msg = delete_undefined m,
       client = Some \<lparr>remote_port = port cn, remote_host = host cn,
                       written = [encode bu (delete_undefined m)], ended = False,
                       listeners = True\<rparr>,
       nreplResp = [], respObjects = [], result = Pending\<rparr>,
      w\<lparr>opened := opened w @ [(port cn, host cn)]\<rparr>)"
  using assms
  by (auto simp: send_start_def createConnection_def socket_on_def socket_write_def Let_def)

lemma send_start_badport:
  assumes "connection = Some cn \<or> (connection = None \<and> getConnection w = Some cn)"
      and "\<not> port cn < 65536"
  shows "send_start bu m connection w =
     (\<lparr>msg = m, client = None, nreplResp = [], respObjects = [],
       result = Rejected RangeError\<rparr>, w)"
  using assms by (auto simp: send_start_def createConnection_def)

lemma send_call_badport:
  assumes "connection = Some cn \<or> (connection = None \<and> getConnection w = Some cn)"
      and "\<not> port cn < 65536"
  shows "send_call bu m connection evs w =
     (\<lparr>msg = m, client = None, nreplResp = [], respObjects = [],
       result = Rejected RangeError\<rparr>, w)"
  using send_start_badport[OF assms]
  by (simp add: send_call_def fold_deliver_detached listening_def)

lemma send_start_offline:
  assumes "connection = None" "getConnection w = None"
  shows "send_start bu m connection w =
     (\<lparr>msg = m, client = None, nreplResp = [], respObjects = [],
       result = Rejected (Reason ''No connection found.'')\<rparr>, w)"
  using assms by (simp add: send_start_def)

lemma send_call_offline:
  assumes "connection = None" "getConnection w = None"
  shows "send_call bu m connection evs w =
     (\<lparr>msg = m, client = None, nreplResp = [], respObjects = [],
       result = Rejected (Reason ''No connection found.'')\<rparr>, w)"
  using assms by (simp add: send_call_def send_start_offline fold_deliver_detached listening_def)

lemma send_call_msg:
  assumes "connection = Some cn \<or> (connection = None \<and> getConnection w = Some cn)"
      and "port cn < 65536"
  shows "msg (fst (send_call bu m connection evs w)) = delete_undefined m"
  using fold_deliver_frame[of bu evs "send_start bu m connection w"] send_start_connected[OF assms]
  by (simp add: send_call_def)

lemma send_call_wire:
  assumes "connection = Some cn \<or> (connection = None \<and> getConnection w = Some cn)"
      and "port cn < 65536"
  shows "wire (fst (send_call bu m connection evs w)) =
           Some (port cn, host cn, [encode bu (delete_undefined m)])"
  using fold_deliver_frame[of bu evs "send_start bu m connection w"] send_start_connected[OF assms]
  by (simp add: send_call_def wire_def)

lemma send_call_opened:
  assumes "connection = Some cn \<or> (connection = None \<and> getConnection w = Some cn)"
      and "port cn < 65536"
  shows "opened (snd (send_call bu m connection evs w)) = opened w @ [(port cn, host cn)]"
  using fold_deliver_frame[of bu evs "send_start bu m connection w"] send_start_connected[OF assms]
  by (simp add: send_call_def)

lemma send_call_calls: "calls (snd (send_call bu m connection evs w)) = calls w"
proof -
  have "calls (snd (send_start bu m connection w)) = calls w"
    by (auto simp: send_start_def createConnection_def Let_def split: option.splits)
  then show ?thesis
    using fold_deliver_frame[of bu evs "send_start bu m connection w"] by (simp add: send_call_def)
qed

lemma send_calls:
  "calls (snd (send bu m connection evs w)) = calls w @ [fst (send_call bu m connection evs w)]"
  by (simp add: send_def split_def Let_def send_call_calls)

lemma send_call_cases:
  obtains (offline) "connection = None" "getConnection w = None"
  | (badport) cn where "connection = Some cn \<or> (connection = None \<and> getConnection w = Some cn)"
      "\<not> port cn < 65536"
  | (connected) cn where "connection = Some cn \<or> (connection = None \<and> getConnection w = Some cn)"
      "port cn < 65536"
  by (cases connection; cases "getConnection w") auto

section \<open>The request on the wire\<close>

text \<open>
  C4: a message has each key once. Whenever \<open>send\<close> opens a socket, the one thing it
  writes is the encoding of the message without its keys bound to \<open>undefined\<close>: no
  such key is left in what is encoded, and every other key is kept with its value. So
  \<open>send({op: "eval", code: "(+ 1 2)", session: undefined})\<close> encodes \<open>op\<close> and \<open>code\<close>
  only.
\<close>

theorem send_transmits_defined_keys:
  assumes "distinct (map fst m)"
      and "client (fst (send_call bu m connection evs w)) = Some sock"
  shows "written sock = [encode bu (defined_keys m)] \<and>
         (\<forall>k. (k, Undefined) \<notin> set (defined_keys m)) \<and>
         (\<forall>k v. v \<noteq> Undefined \<longrightarrow> ((k, v) \<in> set (defined_keys m) \<longleftrightarrow> (k, v) \<in> set m))"
proof -
  have "written sock = [encode bu (defined_keys m)]"
  proof (cases connection w rule: send_call_cases)
    case offline
    then show ?thesis using assms(2) by (simp add: send_call_offline)
  next
    case (badport cn)
    then show ?thesis using assms(2) by (simp add: send_call_badport)
  next
    case (connected cn)
    from send_call_wire[OF this, of bu m evs] assms
    show ?thesis by (simp add: wire_def delete_undefined_filter)
  qed
  then show ?thesis by (auto simp: defined_keys_def)
qed

theorem send_transmits_defined_keys_witness:
  "distinct (map fst [(''op'', Str ''eval''), (''code'', Str ''(+ 1 2)''), (''session'', Undefined)]) \<and>
   client (fst (send_call line_codec
       [(''op'', Str ''eval''), (''code'', Str ''(+ 1 2)''), (''session'', Undefined)] None []
       local_world)) =
     Some \<lparr>remote_port = 7888, remote_host = ''localhost'',
            written = [''d2:op4:eval4:code7:(+ 1 2)e''], ended = False, listeners = True\<rparr> \<and>
   defined_keys [(''op'', Str ''eval''), (''code'', Str ''(+ 1 2)''), (''session'', Undefined)] =
     [(''op'', Str ''eval''), (''code'', Str ''(+ 1 2)'')]"
proof -
  have d: "distinct (map fst [(''op'', Str ''eval''), (''code'', Str ''(+ 1 2)''), (''session'', Undefined)])"
    by simp
  have c: "client (fst (send_call line_codec
       [(''op'', Str ''eval''), (''code'', Str ''(+ 1 2)''), (''session'', Undefined)] None []
       local_world)) =
     Some \<lparr>remote_port = 7888, remote_host = ''localhost'',
            written = [''d2:op4:eval4:code7:(+ 1 2)e''], ended = False, listeners = True\<rparr>"
    by (simp add: run_defs)
  have k: "defined_keys [(''op'', Str ''eval''), (''code'', Str ''(+ 1 2)''), (''session'', Undefined)] =
     [(''op'', Str ''eval''), (''code'', Str ''(+ 1 2)'')]"
    by (simp add: defined_keys_def)
  from send_transmits_defined_keys[OF d c] show ?thesis using d c k by simp
qed

section \<open>The caller's message object\<close>

text \<open>
  C10, as stated, fails when no connection is found: \<open>send\<close> rejects before it reaches
  the deletion, and the message built by \<open>runTests\<close> without a namespace keeps its
  \<open>ns\<close> key.
\<close>

theorem send_mutates_message_counterexample:
  "map msg (calls (snd (runTests line_codec None [] offline_world))) =
     [[(''op'', Str ''test-all''), (''ns'', Undefined), (''load?'', Num 1)]]"
  by (simp add: run_defs runTests_def offline_world_def)

text \<open>
  C10, amended: a message has each key once. When a connection is found (passed by the
  caller, or else the current one) and its port is one \<open>net.createConnection\<close> accepts
  (below 65536), \<open>send\<close> deletes from the caller's own message object every key bound
  to \<open>undefined\<close> and leaves the others, and the caller sees the object so after the
  call, whatever the socket delivers; when no connection is found, or the port is out of
  range, the object is left as it was.
\<close>

theorem send_mutates_message:
  assumes "distinct (map fst m)"
  shows "((connection = Some cn \<or> (connection = None \<and> getConnection w = Some cn)) \<and>
          port cn < 65536 \<longrightarrow>
            msg (fst (send_call bu m connection evs w)) = defined_keys m) \<and>
         ((connection = Some cn \<or> (connection = None \<and> getConnection w = Some cn)) \<and>
          \<not> port cn < 65536 \<longrightarrow>
            msg (fst (send_call bu m connection evs w)) = m) \<and>
         (connection = None \<and> getConnection w = None \<longrightarrow>
            msg (fst (send_call bu m connection evs w)) = m)"
proof (intro conjI impI)
  assume "(connection = Some cn \<or> (connection = None \<and> getConnection w = Some cn)) \<and>
          port cn < 65536"
  then have "msg (fst (send_call bu m connection evs w)) = delete_undefined m"
    using send_call_msg[where cn=cn and connection=connection and w=w and bu=bu and m=m and evs=evs] by blast
  with assms show "msg (fst (send_call bu m connection evs w)) = defined_keys m"
    by (simp add: delete_undefined_filter)
next
  assume "(connection = Some cn \<or> (connection = None \<and> getConnection w = Some cn)) \<and>
          \<not> port cn < 65536"
  then have "send_call bu m connection evs w =
     (\<lparr>msg = m, client = None, nreplResp = [], respObjects = [],
       result = Rejected RangeError\<rparr>, w)"
    using send_call_badport[where cn=cn and connection=connection and w=w and bu=bu and m=m and evs=evs] by blast
  then show "msg (fst (send_call bu m connection evs w)) = m" by simp
next
  assume "connection = None \<and> getConnection w = None"
  then show "msg (fst (send_call bu m connection evs w)) = m"
    by (simp add: send_call_offline)
qed

theorem send_mutates_message_witness:
  "map msg (calls (snd (runTests line_codec None [] local_world))) =
     [[(''op'', Str ''test-all''), (''load?'', Num 1)]] \<and>
   msg (fst (send_call line_codec [(''op'', Str ''test-all''), (''ns'', Undefined)]
       (Some \<lparr>host = ''localhost'', port = 65536\<rparr>) [] local_world)) =
     [(''op'', Str ''test-all''), (''ns'', Undefined)]"
proof -
  let ?m = "[(''op'', Str ''test-all''), (''ns'', Undefined), (''load?'', Num 1)]"
  let ?cn = "\<lparr>host = ''localhost'', port = 7888\<rparr>"
  let ?bad = "\<lparr>host = ''localhost'', port = 65536\<rparr>"
  have d: "distinct (map fst ?m)" by simp
  have c: "((None :: CljConnectionInformation option) = Some ?cn \<or>
           ((None :: CljConnectionInformation option) = None \<and> getConnection local_world = Some ?cn)) \<and>
           port ?cn < 65536"
    by (simp add: getConnection_def local_world_def)
  have "msg (fst (send_call line_codec ?m None [] local_world)) = defined_keys ?m"
    using send_mutates_message[OF d, of None ?cn local_world line_codec "[]"] c
    by blast
  then have 1: "map msg (calls (snd (runTests line_codec None [] local_world))) =
     [[(''op'', Str ''test-all''), (''load?'', Num 1)]]"
    by (simp add: runTests_def send_calls truthy_def optional_def defined_keys_def local_world_def)
  have d2: "distinct (map fst [(''op'', Str ''test-all''), (''ns'', Undefined)])" by simp
  have b: "(Some ?bad = Some ?bad \<or> (Some ?bad = None \<and> getConnection local_world = Some ?bad)) \<and>
           \<not> port ?bad < 65536"
    by simp
  have 2: "msg (fst (send_call line_codec [(''op'', Str ''test-all''), (''ns'', Undefined)]
       (Some ?bad) [] local_world)) = [(''op'', Str ''test-all''), (''ns'', Undefined)]"
    using send_mutates_message[OF d2, of "Some ?bad" ?bad local_world line_codec "[]"] b
    by blast
  from 1 2 show ?thesis by blast
qed

section \<open>Finding the connection\<close>

text \<open>
  C5: when the caller passes no connection and \<open>cljConnection\<close> has none, the promise is
  rejected with \<open>'No connection found.'\<close>, no socket is opened and nothing else
  changes, whatever events are offered. When the caller passes a connection, it is the one
  used, whatever the current connection is: the socket is opened to its port and host, or,
  when \<open>net.createConnection\<close> refuses its port (65536 or more), the promise is rejected
  with the \<open>RangeError\<close> and no socket is opened.
\<close>

theorem send_without_connection:
  "(connection = None \<and> getConnection w = None \<longrightarrow>
      send_call bu m connection evs w =
        (\<lparr>msg = m, client = None, nreplResp = [], respObjects = [],
          result = Rejected (Reason ''No connection found.'')\<rparr>, w)) \<and>
   (connection = Some cn \<and> port cn < 65536 \<longrightarrow>
      (\<exists>sock. client (fst (send_call bu m connection evs w)) = Some sock \<and>
              remote_port sock = port cn \<and> remote_host sock = host cn) \<and>
      opened (snd (send_call bu m connection evs w)) = opened w @ [(port cn, host cn)]) \<and>
   (connection = Some cn \<and> \<not> port cn < 65536 \<longrightarrow>
      send_call bu m connection evs w =
        (\<lparr>msg = m, client = None, nreplResp = [], respObjects = [],
          result = Rejected RangeError\<rparr>, w))"
proof (intro conjI impI)
  assume "connection = None \<and> getConnection w = None"
  then show "send_call bu m connection evs w =
        (\<lparr>msg = m, client = None, nreplResp = [], respObjects = [],
          result = Rejected (Reason ''No connection found.'')\<rparr>, w)"
    by (simp add: send_call_offline)
next
  assume c: "connection = Some cn \<and> port cn < 65536"
  then have "wire (fst (send_call bu m connection evs w)) =
           Some (port cn, host cn, [encode bu (delete_undefined m)])"
    using send_call_wire[where cn=cn and connection=connection and w=w and bu=bu and m=m and evs=evs] by blast
  then show "\<exists>sock. client (fst (send_call bu m connection evs w)) = Some sock \<and>
              remote_port sock = port cn \<and> remote_host sock = host cn"
    by (auto simp: wire_def)
next
  assume c: "connection = Some cn \<and> port cn < 65536"
  then show "opened (snd (send_call bu m connection evs w)) = opened w @ [(port cn, host cn)]"
    using send_call_opened[where cn=cn and connection=connection and w=w and bu=bu and m=m and evs=evs] by blast
next
  assume "connection = Some cn \<and> \<not> port cn < 65536"
  then show "send_call bu m connection evs w =
        (\<lparr>msg = m, client = None, nreplResp = [], respObjects = [],
          result = Rejected RangeError\<rparr>, w)"
    using send_call_badport[where cn=cn and connection=connection and w=w and bu=bu and m=m and evs=evs] by blast
qed

theorem send_without_connection_witness:
  "send_call line_codec [(''op'', Str ''clone'')] None [Data ''=done|=s1|;''] offline_world =
     (\<lparr>msg = [(''op'', Str ''clone'')], client = None, nreplResp = [], respObjects = [],
       result = Rejected (Reason ''No connection found.'')\<rparr>, offline_world) \<and>
   opened (snd (send_call line_codec [(''op'', Str ''clone'')]
       (Some \<lparr>host = ''10.0.0.2'', port = 4001\<rparr>) [] local_world)) = [(4001, ''10.0.0.2'')] \<and>
   send_call line_codec [(''op'', Str ''clone'')]
       (Some \<lparr>host = ''10.0.0.2'', port = 65536\<rparr>) [] local_world =
     (\<lparr>msg = [(''op'', Str ''clone'')], client = None, nreplResp = [], respObjects = [],
       result = Rejected RangeError\<rparr>, local_world)"
proof -
  let ?m = "[(''op'', Str ''clone'')]"
  let ?cn = "\<lparr>host = ''10.0.0.2'', port = 4001\<rparr>"
  let ?bad = "\<lparr>host = ''10.0.0.2'', port = 65536\<rparr>"
  have a: "(None :: CljConnectionInformation option) = None \<and> getConnection offline_world = None"
    by (simp add: getConnection_def offline_world_def)
  have b: "Some ?cn = Some ?cn \<and> port ?cn < 65536" by simp
  have c: "Some ?bad = Some ?bad \<and> \<not> port ?bad < 65536" by simp
  from send_without_connection[of None offline_world line_codec ?m "[Data ''=done|=s1|;'']" ?cn] a
  have 1: "send_call line_codec ?m None [Data ''=done|=s1|;''] offline_world =
     (\<lparr>msg = ?m, client = None, nreplResp = [], respObjects = [],
       result = Rejected (Reason ''No connection found.'')\<rparr>, offline_world)"
    by blast
  from send_without_connection[of "Some ?cn" local_world line_codec ?m "[]" ?cn] b
  have 2: "opened (snd (send_call line_codec ?m (Some ?cn) [] local_world)) =
             opened local_world @ [(4001, ''10.0.0.2'')]"
    by simp
  from send_without_connection[of "Some ?bad" local_world line_codec ?m "[]" ?bad] c
  have 3: "send_call line_codec ?m (Some ?bad) [] local_world =
     (\<lparr>msg = ?m, client = None, nreplResp = [], respObjects = [],
       result = Rejected RangeError\<rparr>, local_world)"
    by blast
  from 1 2 3 show ?thesis by (simp add: local_world_def)
qed

section \<open>Socket errors\<close>

lemma listening_pending: "call_inv c \<Longrightarrow> listening c \<Longrightarrow> result c = Pending"
  by (auto simp: call_inv_def split: promise.splits)

lemma detached_ended:
  "call_inv c \<Longrightarrow> \<not> listening c \<Longrightarrow> client c = Some s \<Longrightarrow> ended s \<and> \<not> listeners s"
  by (auto simp: call_inv_def listening_def)

lemma on_error_pending:
  assumes "result c = Pending" "client c = Some s"
  shows "on_error e (c, w) =
     (c\<lparr>client := Some (s\<lparr>ended := True, listeners := False\<rparr>),
        result := Rejected (SocketError e)\<rparr>,
      if code e = Some ''ECONNREFUSED''
      then w\<lparr>errorMessages := errorMessages w @ [''Connection refused.''], currentConnection := None\<rparr>
      else w)"
  using assms
  by (simp add: on_error_def reject_def Let_def removeAllListeners_def socket_end_def
      disconnect_def showErrorMessage_def)

lemma send_call_snoc_error:
  "send_call bu m connection (evs @ Error e # later) w =
     fold (deliver bu) later (deliver bu (Error e) (send_call bu m connection evs w))"
  by (simp add: send_call_def)

text \<open>
  C6: take a call after any events \<open>evs\<close> and let its socket emit an error. If the
  listeners are still attached (the promise is pending), the promise is rejected with the
  error; when the error code is \<open>ECONNREFUSED\<close>, exactly one message,
  \<open>'Connection refused.'\<close>, is added to those shown, the current connection is gone and
  nothing else of the shared state changes; with any other code the shared state is left
  as it was. After any socket error, refused or not, the socket has been ended and has
  no listeners, and the events that follow change nothing.
\<close>

theorem socket_error_effects:
  "(\<forall>s. client (fst (send_call bu m connection (evs @ Error e # later) w)) = Some s \<longrightarrow>
          ended s \<and> \<not> listeners s) \<and>
   send_call bu m connection (evs @ Error e # later) w =
     send_call bu m connection (evs @ [Error e]) w \<and>
   (listening (fst (send_call bu m connection evs w)) \<longrightarrow>
      result (fst (send_call bu m connection (evs @ Error e # later) w)) = Rejected (SocketError e) \<and>
      (code e = Some ''ECONNREFUSED'' \<longrightarrow>
         snd (send_call bu m connection (evs @ Error e # later) w) =
           (snd (send_call bu m connection evs w))
             \<lparr>errorMessages :=
                errorMessages (snd (send_call bu m connection evs w)) @ [''Connection refused.''],
              currentConnection := None\<rparr>) \<and>
      (code e \<noteq> Some ''ECONNREFUSED'' \<longrightarrow>
         snd (send_call bu m connection (evs @ Error e # later) w) =
           snd (send_call bu m connection evs w)))"
proof -
  obtain c w1 where cw: "send_call bu m connection evs w = (c, w1)"
    by (cases "send_call bu m connection evs w")
  have inv: "call_inv c" using send_call_inv[of bu m connection evs w] cw by simp
  show ?thesis
  proof (cases "listening c")
    case True
    then obtain s where s: "client c = Some s" by (auto simp: listening_def split: option.splits)
    have p: "result c = Pending" using inv True by (rule listening_pending)
    let ?c' = "c\<lparr>client := Some (s\<lparr>ended := True, listeners := False\<rparr>),
                 result := Rejected (SocketError e)\<rparr>"
    let ?w' = "if code e = Some ''ECONNREFUSED''
      then w1\<lparr>errorMessages := errorMessages w1 @ [''Connection refused.''], currentConnection := None\<rparr>
      else w1"
    have d: "deliver bu (Error e) (c, w1) = (?c', ?w')"
      using True on_error_pending[OF p s] by (simp add: deliver_def)
    have nl: "\<not> listening (fst (?c', ?w'))" by (simp add: listening_def)
    have all: "send_call bu m connection (evs @ Error e # later') w = (?c', ?w')" for later'
      using fold_deliver_detached[OF nl, of bu later'] by (simp add: send_call_snoc_error cw d)
    have "send_call bu m connection (evs @ [Error e]) w = (?c', ?w')"
      using all[of "[]"] by simp
    with all[of later] True show ?thesis
      by (simp add: cw)
  next
    case False
    have d: "deliver bu (Error e) (c, w1) = (c, w1)" using False by (simp add: deliver_def)
    have all: "send_call bu m connection (evs @ Error e # later') w = (c, w1)" for later'
      using fold_deliver_detached[of "(c, w1)" bu later'] False
      by (simp add: send_call_snoc_error cw d)
    have "send_call bu m connection (evs @ [Error e]) w = (c, w1)"
      using all[of "[]"] by simp
    with all[of later] False detached_ended[OF inv False] show ?thesis
      by (simp add: cw)
  qed
qed

theorem socket_error_effects_witness:
  "listening (fst (send_call line_codec [(''op'', Str ''clone'')] None [] local_world)) \<and>
   code (NodeError (Some ''ECONNREFUSED'')) = Some ''ECONNREFUSED'' \<and>
   result (fst (send_call line_codec [(''op'', Str ''clone'')] None
       ([] @ Error (NodeError (Some ''ECONNREFUSED'')) # [Data ''=done||;''])
       local_world)) = Rejected (SocketError (NodeError (Some ''ECONNREFUSED''))) \<and>
   snd (send_call line_codec [(''op'', Str ''clone'')] None
       ([] @ Error (NodeError (Some ''ECONNREFUSED'')) # [Data ''=done||;''])
       local_world) =
     \<lparr>currentConnection = None, errorMessages = [''Connection refused.''],
      opened = [(7888, ''localhost'')], calls = []\<rparr>"
proof -
  have l: "listening (fst (send_call line_codec [(''op'', Str ''clone'')] None [] local_world))"
    by (simp add: run_defs)
  have w: "snd (send_call line_codec [(''op'', Str ''clone'')] None [] local_world) =
     \<lparr>currentConnection = Some \<lparr>host = ''localhost'', port = 7888\<rparr>, errorMessages = [],
      opened = [(7888, ''localhost'')], calls = []\<rparr>"
    by (simp add: run_defs)
  have c: "code (NodeError (Some ''ECONNREFUSED'')) = Some ''ECONNREFUSED''"
    by simp
  from socket_error_effects[of line_codec "[(''op'', Str ''clone'')]" None "[]"
      "NodeError (Some ''ECONNREFUSED'')" "[Data ''=done||;'']" local_world]
  have "result (fst (send_call line_codec [(''op'', Str ''clone'')] None
       ([] @ Error (NodeError (Some ''ECONNREFUSED'')) # [Data ''=done||;''])
       local_world)) = Rejected (SocketError (NodeError (Some ''ECONNREFUSED''))) \<and>
     snd (send_call line_codec [(''op'', Str ''clone'')] None
       ([] @ Error (NodeError (Some ''ECONNREFUSED'')) # [Data ''=done||;''])
       local_world) =
     (snd (send_call line_codec [(''op'', Str ''clone'')] None [] local_world))
       \<lparr>errorMessages :=
          errorMessages (snd (send_call line_codec [(''op'', Str ''clone'')] None [] local_world)) @
            [''Connection refused.''],
        currentConnection := None\<rparr>"
    using l c by blast
  then show ?thesis using l c by (simp add: w)
qed

section \<open>clone\<close>

lemma truthy_new_sessions:
  "filter truthy (map new_session respObjs) = map Some (new_session_ids respObjs)"
  by (induction respObjs)
     (auto simp: new_session_ids_def truthy_def split: option.splits)

lemma clone_then_ids:
  "clone_then respObjs =
     (case new_session_ids respObjs of
        [] \<Rightarrow> Rejected (Reason ''No session found'')
      | v # _ \<Rightarrow> Resolved v)"
proof (cases "new_session_ids respObjs")
  case Nil
  then show ?thesis by (simp add: clone_then_def truthy_new_sessions)
next
  case (Cons v vs)
  then have "v \<in> set (new_session_ids respObjs)" by simp
  then have "v \<noteq> []" by (simp add: new_session_ids_def)
  with Cons show ?thesis by (simp add: clone_then_def truthy_new_sessions)
qed

lemma delete_undefined_clone:
  "delete_undefined [(''op'', Str ''clone''), (''session'', optional session)] = clone_request session"
  by (cases session) (simp_all add: delete_undefined_filter defined_keys_def optional_def clone_request_def)

lemma send_wire:
  assumes "getConnection w = Some cn" "port cn < 65536"
  shows "map wire (calls (snd (send bu m None evs w))) =
           map wire (calls w) @ [Some (port cn, host cn, [encode bu (delete_undefined m)])]"
  using send_call_wire[of None cn w bu m evs] assms by (simp add: send_calls)

lemma send_badport:
  assumes "getConnection w = Some cn" "\<not> port cn < 65536"
  shows "send bu m None evs w =
     (Rejected RangeError,
      w\<lparr>calls := calls w @ [\<lparr>msg = m, client = None, nreplResp = [], respObjects = [],
          result = Rejected RangeError\<rparr>]\<rparr>)"
  using send_call_badport[of None cn w bu m evs] assms by (simp add: send_def)

lemma send_offline:
  assumes "getConnection w = None"
  shows "send bu m None evs w =
     (Rejected (Reason ''No connection found.''),
      w\<lparr>calls := calls w @ [\<lparr>msg = m, client = None, nreplResp = [], respObjects = [],
          result = Rejected (Reason ''No connection found.'')\<rparr>]\<rparr>)"
  using assms by (simp add: send_def send_call_offline)

lemma send_resolved_connected:
  assumes "fst (send bu m None evs w) = Resolved rs"
  shows "\<exists>cn. getConnection w = Some cn \<and> port cn < 65536"
proof (cases "getConnection w")
  case None
  then show ?thesis using assms by (simp add: send_offline)
next
  case (Some cn)
  show ?thesis
  proof (cases "port cn < 65536")
    case True
    with Some show ?thesis by simp
  next
    case False
    with Some assms show ?thesis by (simp add: send_badport)
  qed
qed

lemma clone_promise:
  "fst (clone bu session evs w) =
     then_promise
       (fst (send bu [(''op'', Str ''clone''), (''session'', optional session)] None evs w))
       clone_then"
  by (simp add: clone_def split_def Let_def)

lemma clone_world:
  "snd (clone bu session evs w) =
     snd (send bu [(''op'', Str ''clone''), (''session'', optional session)] None evs w)"
  by (simp add: clone_def split_def Let_def)

lemma clone_wire:
  assumes "getConnection w = Some cn" "port cn < 65536"
  shows "map wire (calls (snd (clone bu session evs w))) =
           map wire (calls w) @ [Some (port cn, host cn, [encode bu (clone_request session)])]"
  using send_wire[OF assms, of bu "[(''op'', Str ''clone''), (''session'', optional session)]" evs]
  by (simp add: clone_world delete_undefined_clone)

text \<open>
  C3, as stated, fails on an empty \<open>'new-session'\<close> value: the values are filtered by
  truthiness, so an object whose \<open>'new-session'\<close> is the empty string is passed over
  (the value of a later object is taken), and when it is the only one \<open>clone\<close> rejects
  although a response object carries a new-session value.
\<close>

theorem clone_first_new_session_counterexample:
  "fst (send line_codec [(''op'', Str ''clone''), (''session'', Undefined)] None
          [Data ''|=|;=done|=s2|;''] local_world) =
     Resolved [\<lparr>status = None, new_session = Some '''', sessions = None, other_keys = []\<rparr>,
               \<lparr>status = Some [''done''], new_session = Some ''s2'', sessions = None,
                  other_keys = []\<rparr>] \<and>
   fst (clone line_codec None [Data ''|=|;=done|=s2|;''] local_world) = Resolved ''s2'' \<and>
   fst (send line_codec [(''op'', Str ''clone''), (''session'', Undefined)] None
          [Data ''=done|=|;''] local_world) =
     Resolved [\<lparr>status = Some [''done''], new_session = Some '''', sessions = None,
                  other_keys = []\<rparr>] \<and>
   fst (clone line_codec None [Data ''=done|=|;''] local_world) =
     Rejected (Reason ''No session found'')"
  by (simp add: run_defs clone_def clone_then_def)

text \<open>
  C3, amended: when the \<open>send\<close> of a clone request resolves with a list of response
  objects, \<open>clone\<close> resolves with the first non-empty \<open>'new-session'\<close> value of the
  list and rejects with \<open>'No session found'\<close> when the list has none; the request
  written to the socket has the \<open>session\<close> key bound to the given session when one is
  given and has no \<open>session\<close> key otherwise.
\<close>

theorem clone_first_new_session:
  assumes "fst (send bu [(''op'', Str ''clone''), (''session'', optional session)] None evs w) =
             Resolved respObjs"
  shows "fst (clone bu session evs w) =
           (case new_session_ids respObjs of
              [] \<Rightarrow> Rejected (Reason ''No session found'')
            | v # _ \<Rightarrow> Resolved v) \<and>
         (\<exists>cn. getConnection w = Some cn \<and>
            map wire (calls (snd (clone bu session evs w))) =
              map wire (calls w) @ [Some (port cn, host cn, [encode bu (clone_request session)])])"
proof -
  from assms obtain cn where cn: "getConnection w = Some cn" "port cn < 65536"
    using send_resolved_connected by blast
  from assms have "fst (clone bu session evs w) =
           (case new_session_ids respObjs of
              [] \<Rightarrow> Rejected (Reason ''No session found'')
            | v # _ \<Rightarrow> Resolved v)"
    by (simp add: clone_promise clone_then_ids)
  with cn clone_wire[OF cn] show ?thesis by blast
qed

theorem clone_first_new_session_witness:
  "fst (send line_codec [(''op'', Str ''clone''), (''session'', optional (Some ''s0''))] None
          [Data ''||;=done|=s1|;''] local_world) =
     Resolved [\<lparr>status = None, new_session = None, sessions = None, other_keys = []\<rparr>,
               \<lparr>status = Some [''done''], new_session = Some ''s1'', sessions = None,
                  other_keys = []\<rparr>] \<and>
   fst (clone line_codec (Some ''s0'') [Data ''||;=done|=s1|;''] local_world) = Resolved ''s1''"
proof -
  have h: "fst (send line_codec [(''op'', Str ''clone''), (''session'', optional (Some ''s0''))] None
          [Data ''||;=done|=s1|;''] local_world) =
     Resolved [\<lparr>status = None, new_session = None, sessions = None, other_keys = []\<rparr>,
               \<lparr>status = Some [''done''], new_session = Some ''s1'', sessions = None,
                  other_keys = []\<rparr>]"
    by (simp add: run_defs)
  from clone_first_new_session[OF h] show ?thesis
    using h by (simp add: new_session_ids_def)
qed

section \<open>listSessions\<close>

lemma send_resolved_nonempty:
  "fst (send bu m connection evs w) = Resolved rs \<Longrightarrow> rs \<noteq> []"
  using resolved_shape[OF send_call_inv, of bu m connection evs w rs] by (simp add: send_result)

lemma listSessions_then_Cons:
  "listSessions_then (response # rest) =
     (if (\<exists>st. status response = Some (''done'' # st)) \<and> sessions response \<noteq> None
      then Resolved (the (sessions response))
      else Rejected (Reason ''No sessions found''))"
  by (auto simp: listSessions_then_def first_object_def split: option.splits list.splits)

text \<open>
  C2, as stated, fails when \<open>"done"\<close> is in the status list of the first object but
  not at its head: \<open>listSessions\<close> compares \<open>status[0]\<close> and rejects, although the
  object carries a sessions list.
\<close>

theorem listSessions_first_object_counterexample:
  "fst (send line_codec [(''op'', Str ''ls-sessions'')] None [Data ''=x,done||=s1;''] local_world) =
     Resolved [\<lparr>status = Some [''x'', ''done''], new_session = None, sessions = Some [''s1''],
                other_keys = []\<rparr>] \<and>
   fst (listSessions line_codec [Data ''=x,done||=s1;''] local_world) =
     Rejected (Reason ''No sessions found'')"
proof -
  have 1: "fst (send line_codec [(''op'', Str ''ls-sessions'')] None [Data ''=x,done||=s1;''] local_world) =
     Resolved [\<lparr>status = Some [''x'', ''done''], new_session = None, sessions = Some [''s1''],
                other_keys = []\<rparr>]"
    by (simp add: run_defs listSessions_def listSessions_then_def)
  have 2: "fst (listSessions line_codec [Data ''=x,done||=s1;''] local_world) =
     Rejected (Reason ''No sessions found'')"
    by (simp add: run_defs listSessions_def listSessions_then_def)
  from 1 2 show ?thesis by blast
qed

text \<open>
  C2, amended: when the \<open>send\<close> of an ls-sessions request resolves, the list has a first
  object, and \<open>listSessions\<close> resolves with that object's sessions list if and only if
  the first element of its status list is \<open>"done"\<close> and the object carries a sessions
  list; in every other case it rejects with \<open>'No sessions found'\<close>.
\<close>

theorem listSessions_first_object:
  assumes "fst (send bu [(''op'', Str ''ls-sessions'')] None evs w) = Resolved respObjs"
  shows "\<exists>response rest. respObjs = response # rest \<and>
           (\<forall>ss. fst (listSessions bu evs w) = Resolved ss \<longleftrightarrow>
                   (\<exists>st. status response = Some (''done'' # st)) \<and> sessions response = Some ss) \<and>
           (fst (listSessions bu evs w) = Rejected (Reason ''No sessions found'') \<longleftrightarrow>
              \<not> ((\<exists>st. status response = Some (''done'' # st)) \<and> sessions response \<noteq> None))"
proof -
  from send_resolved_nonempty[OF assms] obtain response rest where r: "respObjs = response # rest"
    by (cases respObjs) auto
  have "fst (listSessions bu evs w) = listSessions_then respObjs"
    using assms by (simp add: listSessions_def split_def Let_def)
  then have "fst (listSessions bu evs w) =
     (if (\<exists>st. status response = Some (''done'' # st)) \<and> sessions response \<noteq> None
      then Resolved (the (sessions response))
      else Rejected (Reason ''No sessions found''))"
    by (simp add: r listSessions_then_Cons)
  then show ?thesis using r by auto
qed

theorem listSessions_first_object_witness:
  "fst (send line_codec [(''op'', Str ''ls-sessions'')] None [Data ''=done||=s1,s2;''] local_world) =
     Resolved [\<lparr>status = Some [''done''], new_session = None, sessions = Some [''s1'', ''s2''],
                other_keys = []\<rparr>] \<and>
   fst (listSessions line_codec [Data ''=done||=s1,s2;''] local_world) = Resolved [''s1'', ''s2'']"
proof -
  have h: "fst (send line_codec [(''op'', Str ''ls-sessions'')] None [Data ''=done||=s1,s2;''] local_world) =
     Resolved [\<lparr>status = Some [''done''], new_session = None, sessions = Some [''s1'', ''s2''],
                other_keys = []\<rparr>]"
    by (simp add: run_defs listSessions_def listSessions_then_def)
  from listSessions_first_object[OF h] show ?thesis using h by auto
qed

section \<open>runTests\<close>

lemma delete_undefined_tests:
  "delete_undefined
     [(''op'', Str (if truthy namespace then ''test'' else ''test-all'')),
      (''ns'', optional namespace), (''load?'', Num 1)] = tests_request namespace"
  by (cases namespace)
     (simp_all add: delete_undefined_filter defined_keys_def optional_def tests_request_def truthy_def)

text \<open>
  C8, as stated, fails for the empty string: the op is chosen by the truthiness of the
  argument, so \<open>runTests("")\<close> sends \<open>test-all\<close>, together with the empty \<open>ns\<close>.
\<close>

theorem runTests_request_counterexample:
  "map wire (calls (snd (runTests line_codec (Some '''') [] local_world))) =
     [Some (7888, ''localhost'', [''d2:op8:test-all2:ns0:5:load?i1ee''])]"
  by (simp add: run_defs runTests_def wire_def)

text \<open>
  C8, amended: every invocation of \<open>runTests\<close> makes one \<open>send\<close> call, and the request
  object of that call has op \<open>"test"\<close> when a non-empty namespace was given and
  \<open>"test-all"\<close> when none was given or the empty string was, and always carries
  \<open>'load?'\<close> set to 1. When the current connection has a port that
  \<open>net.createConnection\<close> accepts, that request, with \<open>ns\<close> present exactly when a
  namespace was passed, is what is written to the socket; when there is no current
  connection or its port is out of range, no socket is opened.
\<close>

theorem runTests_request:
  "(\<exists>c. calls (snd (runTests bu namespace evs w)) = calls w @ [c] \<and>
        map_of (msg c) ''op'' =
          Some (Str (case namespace of
                       None \<Rightarrow> ''test-all''
                     | Some n \<Rightarrow> if n = [] then ''test-all'' else ''test'')) \<and>
        map_of (msg c) ''load?'' = Some (Num 1)) \<and>
   (getConnection w = Some cn \<and> port cn < 65536 \<longrightarrow>
      map wire (calls (snd (runTests bu namespace evs w))) =
        map wire (calls w) @ [Some (port cn, host cn, [encode bu (tests_request namespace)])]) \<and>
   (getConnection w = None \<or> (getConnection w = Some cn \<and> \<not> port cn < 65536) \<longrightarrow>
      map wire (calls (snd (runTests bu namespace evs w))) = map wire (calls w) @ [None])"
proof (intro conjI impI)
  let ?m = "[(''op'', Str (if truthy namespace then ''test'' else ''test-all'')),
             (''ns'', optional namespace), (''load?'', Num 1)]"
  let ?c = "fst (send_call bu ?m None evs w)"
  have cs: "calls (snd (runTests bu namespace evs w)) = calls w @ [?c]"
    by (simp add: runTests_def send_calls)
  have "msg ?c = ?m \<or> msg ?c = tests_request namespace"
  proof (cases "None :: CljConnectionInformation option" w rule: send_call_cases)
    case offline
    then show ?thesis by (simp add: send_call_offline)
  next
    case (badport cn')
    then show ?thesis using send_call_badport[of None cn' w bu ?m evs] by simp
  next
    case (connected cn')
    then show ?thesis using send_call_msg[of None cn' w bu ?m evs]
      by (simp add: delete_undefined_tests)
  qed
  then have "map_of (msg ?c) ''op'' =
          Some (Str (case namespace of
                       None \<Rightarrow> ''test-all''
                     | Some n \<Rightarrow> if n = [] then ''test-all'' else ''test'')) \<and>
        map_of (msg ?c) ''load?'' = Some (Num 1)"
    by (cases namespace) (auto simp: tests_request_def truthy_def)
  with cs show "\<exists>c. calls (snd (runTests bu namespace evs w)) = calls w @ [c] \<and>
        map_of (msg c) ''op'' =
          Some (Str (case namespace of
                       None \<Rightarrow> ''test-all''
                     | Some n \<Rightarrow> if n = [] then ''test-all'' else ''test'')) \<and>
        map_of (msg c) ''load?'' = Some (Num 1)"
    by blast
next
  assume "getConnection w = Some cn \<and> port cn < 65536"
  then show "map wire (calls (snd (runTests bu namespace evs w))) =
        map wire (calls w) @ [Some (port cn, host cn, [encode bu (tests_request namespace)])]"
    using send_wire[of w cn] by (simp add: runTests_def delete_undefined_tests)
next
  assume "getConnection w = None \<or> (getConnection w = Some cn \<and> \<not> port cn < 65536)"
  then show "map wire (calls (snd (runTests bu namespace evs w))) = map wire (calls w) @ [None]"
    using send_offline[of w] send_badport[of w cn]
    by (auto simp: runTests_def wire_def)
qed

theorem runTests_request_witness:
  "map wire (calls (snd (runTests line_codec (Some ''my.ns'') [] local_world))) =
     [Some (7888, ''localhost'', [''d2:op4:test2:ns5:my.ns5:load?i1ee''])] \<and>
   map wire (calls (snd (runTests line_codec None [] local_world))) =
     [Some (7888, ''localhost'', [''d2:op8:test-all5:load?i1ee''])] \<and>
   map wire (calls (snd (runTests line_codec None [] offline_world))) = [None]"
proof -
  let ?cn = "\<lparr>host = ''localhost'', port = 7888\<rparr>"
  have g: "getConnection local_world = Some ?cn \<and> port ?cn < 65536"
    by (simp add: getConnection_def local_world_def)
  have o: "getConnection offline_world = None \<or>
           (getConnection offline_world = Some ?cn \<and> \<not> port ?cn < 65536)"
    by (simp add: getConnection_def offline_world_def)
  from runTests_request[of line_codec "Some ''my.ns''" "[]" local_world ?cn] g
  have 1: "map wire (calls (snd (runTests line_codec (Some ''my.ns'') [] local_world))) =
     [Some (7888, ''localhost'', [''d2:op4:test2:ns5:my.ns5:load?i1ee''])]"
    by (simp add: tests_request_def line_codec_def line_encode_def bstring_def local_world_def)
  from runTests_request[of line_codec None "[]" local_world ?cn] g
  have 2: "map wire (calls (snd (runTests line_codec None [] local_world))) =
     [Some (7888, ''localhost'', [''d2:op8:test-all5:load?i1ee''])]"
    by (simp add: tests_request_def line_codec_def line_encode_def bstring_def local_world_def)
  from runTests_request[of line_codec None "[]" offline_world ?cn] o
  have 3: "map wire (calls (snd (runTests line_codec None [] offline_world))) = [None]"
    by (simp add: offline_world_def)
  from 1 2 3 show ?thesis by blast
qed

section \<open>evaluate and evaluateFile\<close>

lemma deliver_rejected_or_connection:
  assumes "call_inv (fst cw)"
  shows "(\<exists>e. result (fst (deliver bu ev cw)) = Rejected e) \<or>
         currentConnection (snd (deliver bu ev cw)) = currentConnection (snd cw)"
proof (cases "listening (fst cw)")
  case False
  then show ?thesis by (simp add: deliver_def)
next
  case True
  obtain c w where cw: "cw = (c, w)" by (cases cw)
  from True cw obtain s where s: "client c = Some s" by (auto simp: listening_def split: option.splits)
  have p: "result c = Pending" using assms True cw by (simp add: listening_pending)
  show ?thesis
  proof (cases ev)
    case (Data d)
    then show ?thesis using True cw
      by (simp add: deliver_def on_data_def Let_def split_def)
  next
    case (Error e)
    then show ?thesis using True cw on_error_pending[OF p s, of e w]
      by (simp add: deliver_def)
  qed
qed

lemma rejected_detached: "call_inv c \<Longrightarrow> result c = Rejected e \<Longrightarrow> \<not> listening c"
  by (simp add: call_inv_def)

lemma fold_deliver_rejected_or_connection:
  assumes "call_inv (fst cw)"
  shows "(\<exists>e. result (fst (fold (deliver bu) evs cw)) = Rejected e) \<or>
         currentConnection (snd (fold (deliver bu) evs cw)) = currentConnection (snd cw)"
  using assms
proof (induction evs arbitrary: cw)
  case Nil
  then show ?case by simp
next
  case (Cons ev evs)
  let ?cw' = "deliver bu ev cw"
  have inv': "call_inv (fst ?cw')" using Cons.prems by (rule deliver_inv)
  from deliver_rejected_or_connection[OF Cons.prems, of bu ev] show ?case
  proof
    assume "\<exists>e. result (fst ?cw') = Rejected e"
    then obtain e where e: "result (fst ?cw') = Rejected e" ..
    have "\<not> listening (fst ?cw')" using inv' e by (rule rejected_detached)
    then have "fold (deliver bu) evs ?cw' = ?cw'" by (rule fold_deliver_detached)
    with e show ?thesis by simp
  next
    assume "currentConnection (snd ?cw') = currentConnection (snd cw)"
    with Cons.IH[OF inv'] show ?thesis by auto
  qed
qed

lemma send_resolved_connection:
  assumes "fst (send bu m connection evs w) = Resolved rs"
  shows "getConnection (snd (send bu m connection evs w)) = getConnection w"
proof -
  have s: "currentConnection (snd (send_start bu m connection w)) = currentConnection w"
    by (auto simp: send_start_def createConnection_def Let_def split: option.splits)
  from fold_deliver_rejected_or_connection[where cw="send_start bu m connection w" and bu=bu and evs=evs,
      OF send_start_inv] assms
  have "currentConnection (snd (send_call bu m connection evs w)) = currentConnection w"
    by (simp add: send_call_def send_result s)
  then show ?thesis by (simp add: send_def split_def Let_def getConnection_def)
qed

lemma then_promise_Resolved:
  "then_promise p f = Resolved v \<Longrightarrow> \<exists>x. p = Resolved x"
  by (cases p) simp_all

lemma delete_undefined_eval:
  "delete_undefined [(''op'', Str ''eval''), (''code'', Str c), (''session'', Str s)] =
     [(''op'', Str ''eval''), (''code'', Str c), (''session'', Str s)]"
  by (simp add: delete_undefined_filter defined_keys_def)

lemma delete_undefined_load_file:
  "delete_undefined
     [(''op'', Str ''load-file''), (''file'', Str c), (''file-path'', Str f), (''session'', Str s)] =
     [(''op'', Str ''load-file''), (''file'', Str c), (''file-path'', Str f), (''session'', Str s)]"
  by (simp add: delete_undefined_filter defined_keys_def)

text \<open>
  C7, as stated, fails where it promises distinct session ids: the id is whatever the
  remote answers to the clone request. Two successive \<open>evaluate\<close> calls whose clone
  requests are both answered with \<open>s1\<close> make two clone requests and tag both eval
  requests with \<open>s1\<close>.
\<close>

theorem evaluate_cloned_session_counterexample:
  "map wire (calls (snd (evaluate line_codec ''(+ 1 1)'' None [Data ''=done|=s1|;''] [Data ''=done||;'']
       (snd (evaluate line_codec ''(+ 1 1)'' None [Data ''=done|=s1|;''] [Data ''=done||;'']
              local_world))))) =
     [Some (7888, ''localhost'', [''d2:op5:clonee'']),
      Some (7888, ''localhost'', [''d2:op4:eval4:code7:(+ 1 1)7:session2:s1e'']),
      Some (7888, ''localhost'', [''d2:op5:clonee'']),
      Some (7888, ''localhost'', [''d2:op4:eval4:code7:(+ 1 1)7:session2:s1e''])]"
  by (simp add: run_defs evaluate_def clone_def clone_then_def wire_def)

lemma evaluate_resolved:
  assumes "fst (clone bu session clone_events w) = Resolved session_id"
  shows "\<exists>cn. getConnection w = Some cn \<and>
           map wire (calls (snd (evaluate bu code' session clone_events events w))) =
             map wire (calls w) @
             [Some (port cn, host cn, [encode bu (clone_request session)]),
              Some (port cn, host cn,
                    [encode bu [(''op'', Str ''eval''), (''code'', Str code'),
                                (''session'', Str session_id)]])] \<and>
           map wire (calls (snd (evaluateFile bu code' filepath session clone_events events w))) =
             map wire (calls w) @
             [Some (port cn, host cn, [encode bu (clone_request session)]),
              Some (port cn, host cn,
                    [encode bu [(''op'', Str ''load-file''), (''file'', Str code'),
                                (''file-path'', Str filepath), (''session'', Str session_id)]])]"
proof -
  let ?m = "[(''op'', Str ''clone''), (''session'', optional session)]"
  obtain p w1 where pw: "clone bu session clone_events w = (p, w1)"
    by (cases "clone bu session clone_events w")
  with assms have cl: "clone bu session clone_events w = (Resolved session_id, w1)" by simp
  from assms obtain rs where rs: "fst (send bu ?m None clone_events w) = Resolved rs"
    using then_promise_Resolved[of "fst (send bu ?m None clone_events w)" clone_then session_id]
    by (auto simp: clone_promise)
  from send_resolved_connected[OF rs] obtain cn where cn: "getConnection w = Some cn"
    and pc: "port cn < 65536" by blast
  have w1: "map wire (calls w1) =
               map wire (calls w) @ [Some (port cn, host cn, [encode bu (clone_request session)])]"
    using clone_wire[OF cn pc, of bu session clone_events] cl by simp
  have "getConnection w1 = getConnection w"
    using send_resolved_connection[OF rs] clone_world[of bu session clone_events w] cl by simp
  then have cn1: "getConnection w1 = Some cn" using cn by simp
  have "evaluate bu code' session clone_events events w =
          send bu [(''op'', Str ''eval''), (''code'', Str code'), (''session'', Str session_id)]
            None events w1"
    by (simp add: evaluate_def cl)
  then have e: "map wire (calls (snd (evaluate bu code' session clone_events events w))) =
             map wire (calls w) @
             [Some (port cn, host cn, [encode bu (clone_request session)]),
              Some (port cn, host cn,
                    [encode bu [(''op'', Str ''eval''), (''code'', Str code'),
                                (''session'', Str session_id)]])]"
    using send_wire[OF cn1 pc] w1 by (simp add: delete_undefined_eval)
  have "evaluateFile bu code' filepath session clone_events events w =
          send bu [(''op'', Str ''load-file''), (''file'', Str code'),
                   (''file-path'', Str filepath), (''session'', Str session_id)]
            None events w1"
    by (simp add: evaluateFile_def cl)
  then have f: "map wire (calls (snd (evaluateFile bu code' filepath session clone_events events w))) =
             map wire (calls w) @
             [Some (port cn, host cn, [encode bu (clone_request session)]),
              Some (port cn, host cn,
                    [encode bu [(''op'', Str ''load-file''), (''file'', Str code'),
                                (''file-path'', Str filepath), (''session'', Str session_id)]])]"
    using send_wire[OF cn1 pc] w1 by (simp add: delete_undefined_load_file)
  from cn e f show ?thesis by blast
qed

text \<open>
  C7, amended: whatever session the caller passes (or none), \<open>evaluate\<close> and
  \<open>evaluateFile\<close> first make the \<open>send\<close> call of \<open>clone\<close> with that session. When
  \<open>clone\<close> resolves, the clone request (with no session key when none is passed) was
  written to a first socket and the \<open>eval\<close> (respectively \<open>load-file\<close>) request is
  written to a second one, tagged with the session id \<open>clone\<close> resolved with; these two
  requests are all the call writes. When \<open>clone\<close> stays pending or is rejected, the
  operation stays pending or is rejected with the same reason, and the call of \<open>clone\<close>
  is the only one made: no \<open>eval\<close> or \<open>load-file\<close> request is sent at all. This holds in
  every state, so two successive calls make two clone requests and each uses the id its
  own clone returned.
\<close>

theorem evaluate_cloned_session:
  "calls (snd (clone bu session clone_events w)) =
     calls w @ [fst (send_call bu [(''op'', Str ''clone''), (''session'', optional session)]
                        None clone_events w)] \<and>
   (fst (clone bu session clone_events w) = Resolved session_id \<longrightarrow>
      (\<exists>cn. getConnection w = Some cn \<and>
           map wire (calls (snd (evaluate bu code' session clone_events events w))) =
             map wire (calls w) @
             [Some (port cn, host cn, [encode bu (clone_request session)]),
              Some (port cn, host cn,
                    [encode bu [(''op'', Str ''eval''), (''code'', Str code'),
                                (''session'', Str session_id)]])] \<and>
           map wire (calls (snd (evaluateFile bu code' filepath session clone_events events w))) =
             map wire (calls w) @
             [Some (port cn, host cn, [encode bu (clone_request session)]),
              Some (port cn, host cn,
                    [encode bu [(''op'', Str ''load-file''), (''file'', Str code'),
                                (''file-path'', Str filepath), (''session'', Str session_id)]])])) \<and>
   (fst (clone bu session clone_events w) = Pending \<longrightarrow>
      evaluate bu code' session clone_events events w =
        (Pending, snd (clone bu session clone_events w)) \<and>
      evaluateFile bu code' filepath session clone_events events w =
        (Pending, snd (clone bu session clone_events w))) \<and>
   (fst (clone bu session clone_events w) = Rejected e \<longrightarrow>
      evaluate bu code' session clone_events events w =
        (Rejected e, snd (clone bu session clone_events w)) \<and>
      evaluateFile bu code' filepath session clone_events events w =
        (Rejected e, snd (clone bu session clone_events w)))"
proof (intro conjI impI)
  show "calls (snd (clone bu session clone_events w)) =
     calls w @ [fst (send_call bu [(''op'', Str ''clone''), (''session'', optional session)]
                        None clone_events w)]"
    by (simp add: clone_world send_calls)
next
  assume "fst (clone bu session clone_events w) = Resolved session_id"
  then show "\<exists>cn. getConnection w = Some cn \<and>
           map wire (calls (snd (evaluate bu code' session clone_events events w))) =
             map wire (calls w) @
             [Some (port cn, host cn, [encode bu (clone_request session)]),
              Some (port cn, host cn,
                    [encode bu [(''op'', Str ''eval''), (''code'', Str code'),
                                (''session'', Str session_id)]])] \<and>
           map wire (calls (snd (evaluateFile bu code' filepath session clone_events events w))) =
             map wire (calls w) @
             [Some (port cn, host cn, [encode bu (clone_request session)]),
              Some (port cn, host cn,
                    [encode bu [(''op'', Str ''load-file''), (''file'', Str code'),
                                (''file-path'', Str filepath), (''session'', Str session_id)]])]"
    by (rule evaluate_resolved)
next
  assume "fst (clone bu session clone_events w) = Pending"
  then show "evaluate bu code' session clone_events events w =
        (Pending, snd (clone bu session clone_events w))"
    by (cases "clone bu session clone_events w") (simp add: evaluate_def)
next
  assume "fst (clone bu session clone_events w) = Pending"
  then show "evaluateFile bu code' filepath session clone_events events w =
        (Pending, snd (clone bu session clone_events w))"
    by (cases "clone bu session clone_events w") (simp add: evaluateFile_def)
next
  assume "fst (clone bu session clone_events w) = Rejected e"
  then show "evaluate bu code' session clone_events events w =
        (Rejected e, snd (clone bu session clone_events w))"
    by (cases "clone bu session clone_events w") (simp add: evaluate_def)
next
  assume "fst (clone bu session clone_events w) = Rejected e"
  then show "evaluateFile bu code' filepath session clone_events events w =
        (Rejected e, snd (clone bu session clone_events w))"
    by (cases "clone bu session clone_events w") (simp add: evaluateFile_def)
qed

theorem evaluate_cloned_session_witness:
  "fst (clone line_codec (Some ''s0'') [Data ''=done|=s1|;''] local_world) = Resolved ''s1'' \<and>
   map wire (calls (snd (evaluate line_codec ''(+ 1 1)'' (Some ''s0'') [Data ''=done|=s1|;'']
       [Data ''=done||;''] local_world))) =
     [Some (7888, ''localhost'', [''d2:op5:clone7:session2:s0e'']),
      Some (7888, ''localhost'', [''d2:op4:eval4:code7:(+ 1 1)7:session2:s1e''])] \<and>
   map wire (calls (snd (evaluate line_codec ''(+ 1 1)'' None [Data ''=done|=s2|;''] [Data ''=done||;'']
       (snd (evaluate line_codec ''(+ 1 1)'' None [Data ''=done|=s1|;''] [Data ''=done||;'']
              local_world))))) =
     [Some (7888, ''localhost'', [''d2:op5:clonee'']),
      Some (7888, ''localhost'', [''d2:op4:eval4:code7:(+ 1 1)7:session2:s1e'']),
      Some (7888, ''localhost'', [''d2:op5:clonee'']),
      Some (7888, ''localhost'', [''d2:op4:eval4:code7:(+ 1 1)7:session2:s2e''])] \<and>
   fst (clone line_codec (Some ''s0'') [] offline_world) = Rejected (Reason ''No connection found.'') \<and>
   fst (evaluate line_codec ''(+ 1 1)'' (Some ''s0'') [] [Data ''=done||;''] offline_world) =
     Rejected (Reason ''No connection found.'') \<and>
   map wire (calls (snd (evaluate line_codec ''(+ 1 1)'' (Some ''s0'') [] [Data ''=done||;'']
       offline_world))) = [None] \<and>
   fst (clone line_codec (Some ''s0'') [Data ''||;''] local_world) = Pending \<and>
   fst (evaluate line_codec ''(+ 1 1)'' (Some ''s0'') [Data ''||;''] [Data ''=done||;''] local_world) =
     Pending \<and>
   map wire (calls (snd (evaluate line_codec ''(+ 1 1)'' (Some ''s0'') [Data ''||;''] [Data ''=done||;'']
       local_world))) = [Some (7888, ''localhost'', [''d2:op5:clone7:session2:s0e''])]"
proof -
  have r: "fst (clone line_codec (Some ''s0'') [] offline_world) = Rejected (Reason ''No connection found.'')"
    by (simp add: run_defs clone_def offline_world_def)
  have rw: "map wire (calls (snd (clone line_codec (Some ''s0'') [] offline_world))) = [None]"
    by (simp add: run_defs clone_def offline_world_def wire_def)
  from evaluate_cloned_session[of line_codec "Some ''s0''" "[]" offline_world
      "''''" "''(+ 1 1)''" "[Data ''=done||;'']" _ "Reason ''No connection found.''"] r
  have 3: "evaluate line_codec ''(+ 1 1)'' (Some ''s0'') [] [Data ''=done||;''] offline_world =
     (Rejected (Reason ''No connection found.''), snd (clone line_codec (Some ''s0'') [] offline_world))"
    by blast
  have p: "fst (clone line_codec (Some ''s0'') [Data ''||;''] local_world) = Pending"
    by (simp add: run_defs clone_def)
  have pw: "map wire (calls (snd (clone line_codec (Some ''s0'') [Data ''||;''] local_world))) =
     [Some (7888, ''localhost'', [''d2:op5:clone7:session2:s0e''])]"
    by (simp add: run_defs clone_def wire_def)
  from evaluate_cloned_session[of line_codec "Some ''s0''" "[Data ''||;'']" local_world
      "''''" "''(+ 1 1)''" "[Data ''=done||;'']"] p
  have 4: "evaluate line_codec ''(+ 1 1)'' (Some ''s0'') [Data ''||;''] [Data ''=done||;''] local_world =
     (Pending, snd (clone line_codec (Some ''s0'') [Data ''||;''] local_world))"
    by blast
  have h: "fst (clone line_codec (Some ''s0'') [Data ''=done|=s1|;''] local_world) = Resolved ''s1''"
    by (simp add: run_defs clone_def clone_then_def)
  have g: "getConnection local_world = Some \<lparr>host = ''localhost'', port = 7888\<rparr>"
    by (simp add: getConnection_def local_world_def)
  from evaluate_cloned_session[of line_codec "Some ''s0''" "[Data ''=done|=s1|;'']" local_world
      "''s1''" "''(+ 1 1)''" "[Data ''=done||;'']"] h g
  have 1: "map wire (calls (snd (evaluate line_codec ''(+ 1 1)'' (Some ''s0'') [Data ''=done|=s1|;'']
       [Data ''=done||;''] local_world))) =
     [Some (7888, ''localhost'', [''d2:op5:clone7:session2:s0e'']),
      Some (7888, ''localhost'', [''d2:op4:eval4:code7:(+ 1 1)7:session2:s1e''])]"
    by (auto simp: clone_request_def line_codec_def line_encode_def bstring_def local_world_def)
  have 2: "map wire (calls (snd (evaluate line_codec ''(+ 1 1)'' None [Data ''=done|=s2|;''] [Data ''=done||;'']
       (snd (evaluate line_codec ''(+ 1 1)'' None [Data ''=done|=s1|;''] [Data ''=done||;'']
              local_world))))) =
     [Some (7888, ''localhost'', [''d2:op5:clonee'']),
      Some (7888, ''localhost'', [''d2:op4:eval4:code7:(+ 1 1)7:session2:s1e'']),
      Some (7888, ''localhost'', [''d2:op5:clonee'']),
      Some (7888, ''localhost'', [''d2:op4:eval4:code7:(+ 1 1)7:session2:s2e''])]"
    by (simp add: run_defs evaluate_def clone_def clone_then_def wire_def)
  from h 1 2 r rw 3 p pw 4 show ?thesis by simp
qed

end
